theory Spec2Isabelle
  imports Main "HOL-Library.Multiset" "HOL-Library.AList"
begin

section \<open>Common data: names, types, errors\<close>

text \<open>
  \<^verbatim>\<open>langkit.names.Name\<close> is used by both modules but is not part of the
  sources at hand. A name is identified with its base string; the class
  methods that build a name from a spelling (\<^verbatim>\<open>from_camel\<close>,
  \<^verbatim>\<open>from_lower\<close>) are taken as parameters wherever the code calls them.
\<close>

datatype name = Name string

fun base_name :: "name \<Rightarrow> string" where
  "base_name (Name s) = s"

text \<open>
  The part of the type lattice that \<^verbatim>\<open>envs.py\<close> mentions:
  \<^verbatim>\<open>BoolType\<close>, \<^verbatim>\<open>LexicalEnvType\<close>, \<^verbatim>\<open>Symbol\<close>, \<^verbatim>\<open>Token\<close>,
  \<^verbatim>\<open>T.root_node\<close>, \<^verbatim>\<open>T.root_node.env_el()\<close> and \<^verbatim>\<open>array_type()\<close>.
\<close>

datatype compiled_type =
    BoolType
  | LexicalEnvType
  | Symbol
  | Token
  | root_node
  | env_el
  | array_type compiled_type

fun type_repr :: "compiled_type \<Rightarrow> string" where
  "type_repr BoolType = ''BoolType''"
| "type_repr LexicalEnvType = ''LexicalEnvType''"
| "type_repr Symbol = ''Symbol''"
| "type_repr Token = ''Token''"
| "type_repr root_node = ''root_node''"
| "type_repr env_el = ''env_el''"
| "type_repr (array_type t) = type_repr t @ ''.array_type''"

text \<open>
  Every way in which the Python code stops: a failed
  \<^verbatim>\<open>check_source_language\<close> is the fatal diagnostic reported through the
  diagnostics module; the others are ordinary Python exceptions, raised by
  \<^verbatim>\<open>assert\<close>, by a missing attribute, by \<^verbatim>\<open>raise\<close> or by indexing.
\<close>

datatype error =
    Diagnostic string
  | AssertionError string
  | AttributeError string
  | ValueError string
  | IndexError
  | NotImplementedError

fun is_diagnostic :: "error \<Rightarrow> bool" where
  "is_diagnostic (Diagnostic m) = True"
| "is_diagnostic e = False"

text \<open>Decimal rendering of a number, as \<^verbatim>\<open>str.format\<close> prints it.\<close>

fun str_of_nat :: "nat \<Rightarrow> string" where
  "str_of_nat n =
     (if n < 10 then [char_of (48 + n)]
      else str_of_nat (n div 10) @ [char_of (48 + n mod 10)])"

declare str_of_nat.simps [simp del]

definition str_of_int :: "int \<Rightarrow> string" where
  "str_of_int i = (if i < 0 then CHR ''-'' # str_of_nat (nat (- i)) else str_of_nat (nat i))"

section \<open>The environment binding state (\<^verbatim>\<open>expressions/envs.py\<close>)\<close>

text \<open>
  \<^verbatim>\<open>PropertyDef\<close> is defined outside the sources at hand; of a property the
  module reads \<^verbatim>\<open>has_implicit_env\<close> and creates local variables through
  \<^verbatim>\<open>vars.create\<close>.
\<close>

record property_def =
  has_implicit_env :: bool
  vars :: "(name \<times> compiled_type) list"

text \<open>
  The mutable state the construction pass works on: the two attributes of the
  \<^verbatim>\<open>Env\<close> singleton (\<^verbatim>\<open>_is_bound\<close>, and \<^verbatim>\<open>_name\<close> inherited from
  \<^verbatim>\<open>AbstractVariable\<close>), and the property that \<^verbatim>\<open>PropertyDef.get()\<close>
  returns.
\<close>

record construct_state =
  is_bound :: bool
  var_name :: name
  current_property :: property_def

text \<open>
  A Python computation on that state: it either returns a value or raises,
  and in both cases the state is whatever the computation left behind.
\<close>

type_synonym 'a run = "construct_state \<Rightarrow> (error + 'a) \<times> construct_state"

definition returns :: "'a \<Rightarrow> 'a run" where
  "returns v s = (Inr v, s)"

definition raises :: "error \<Rightarrow> 'a run" where
  "raises e s = (Inl e, s)"

definition and_then :: "'a run \<Rightarrow> ('a \<Rightarrow> 'b run) \<Rightarrow> 'b run" where
  "and_then m f s =
     (case m s of
        (Inl e, s') \<Rightarrow> (Inl e, s')
      | (Inr v, s') \<Rightarrow> f v s')"

definition check_source_language :: "bool \<Rightarrow> string \<Rightarrow> unit run" where
  \<comment> \<open>Modelled from the spec: \<^verbatim>\<open>langkit.diagnostics.check_source_language\<close> is
      missing; the diagnostics collaborator \<^verbatim>\<open>report(condition, message)\<close> aborts
      the current processing with the message when the condition is false.\<close>
  "check_source_language cond msg = (if cond then returns () else raises (Diagnostic msg))"

definition default_name :: name where
  "default_name = Name ''Current_Env''"

definition EnvVariable_init :: "property_def \<Rightarrow> construct_state" where
  "EnvVariable_init p = \<lparr>is_bound = False, var_name = default_name, current_property = p\<rparr>"

definition has_ambient_env :: "construct_state \<Rightarrow> bool" where
  "has_ambient_env s = (has_implicit_env (current_property s) \<or> is_bound s)"

text \<open>
  \<^verbatim>\<open>bind\<close> is a generator-based context manager without \<^verbatim>\<open>try/finally\<close>:
  when the body of the \<^verbatim>\<open>with\<close> block raises, the exception is thrown into
  the generator at its \<^verbatim>\<open>yield\<close> and leaves it there, so the line after the
  \<^verbatim>\<open>yield\<close> runs on normal completion only.
\<close>

definition EnvVariable_bind :: "'a run \<Rightarrow> 'a run" where
  "EnvVariable_bind body s =
     (let saved_is_bound = is_bound s in
      case body (s\<lparr>is_bound := True\<rparr>) of
        (Inl e, s') \<Rightarrow> (Inl e, s')
      | (Inr v, s') \<Rightarrow> (Inr v, s'\<lparr>is_bound := saved_is_bound\<rparr>))"

definition bind_name :: "name \<Rightarrow> 'a run \<Rightarrow> 'a run" where
  \<comment> \<open>Modelled from the spec: \<^verbatim>\<open>AbstractVariable.bind_name\<close> is missing; the
      current binding name is mutated only through scoped acquire/release pairs and
      is never left mutated on an error exit.\<close>
  "bind_name n body s =
     (let old_name = var_name s in
      case body (s\<lparr>var_name := n\<rparr>) of
        (r, s') \<Rightarrow> (r, s'\<lparr>var_name := old_name\<rparr>))"

definition EnvVariable_bind_default :: "property_def \<Rightarrow> 'a run \<Rightarrow> 'a run" where
  "EnvVariable_bind_default prop body s =
     (if has_implicit_env prop then bind_name default_name body s
      else
        let saved_is_bound = is_bound s in
        case body (s\<lparr>is_bound := False\<rparr>) of
          (Inl e, s') \<Rightarrow> (Inl e, s')
        | (Inr v, s') \<Rightarrow> (Inr v, s'\<lparr>is_bound := saved_is_bound\<rparr>))"

subsection \<open>Resolved expressions and the construction pass\<close>

text \<open>
  The resolved expression classes this module builds. \<^verbatim>\<open>VariableExpr\<close> stands
  for the node that \<^verbatim>\<open>AbstractVariable.construct\<close> returns: a typed reference
  to an abstract variable, remembered by the variable's own (default) name.
\<close>

datatype resolved_expression =
    VariableExpr compiled_type name
  | SymbolLiteralExpr string
  | BoolLiteralExpr bool
  | GetSymbolExpr resolved_expression
  | BasicExpr string compiled_type "resolved_expression list" "string option"
  | BuiltinCallExpr string compiled_type "resolved_expression list" "string option"
  | EnvBindExpr resolved_expression resolved_expression name

fun static_type :: "resolved_expression \<Rightarrow> compiled_type" where
  "static_type (VariableExpr t n) = t"
| "static_type (SymbolLiteralExpr x) = Symbol"
| "static_type (BoolLiteralExpr b) = BoolType"
| "static_type (GetSymbolExpr e) = Symbol"
| "static_type (BasicExpr template t operands result_var_name) = t"
| "static_type (BuiltinCallExpr callee t operands result_var_name) = t"
| "static_type (EnvBindExpr env_expr to_eval_expr env_var) = static_type to_eval_expr"

text \<open>
  What a DSL call site can be handed: an abstract expression, which is
  represented by its own \<^verbatim>\<open>construct\<close> method, or a raw Python value (a
  \<^verbatim>\<open>str\<close>, a \<^verbatim>\<open>bool\<close>, or anything else, kept by its \<^verbatim>\<open>repr\<close>).
\<close>

datatype operand =
    AbstractExpression "construct_state \<Rightarrow> (error + resolved_expression) \<times> construct_state"
  | Str string
  | Bool bool
  | Other string

definition construct :: "operand \<Rightarrow> compiled_type option \<Rightarrow> resolved_expression run" where
  \<comment> \<open>Modelled from the spec: \<^verbatim>\<open>langkit.expressions.base.construct\<close> is missing;
      given an abstract expression and a required type (or none) it produces a
      resolved expression whose type is compatible with the requirement, or fails
      with a diagnostic naming the incompatible type; a string is turned into a
      symbol and a boolean into a literal.\<close>
  "construct expr expected_type =
     and_then
       (case expr of
          AbstractExpression c \<Rightarrow> c
        | Str x \<Rightarrow> returns (SymbolLiteralExpr x)
        | Bool b \<Rightarrow> returns (BoolLiteralExpr b)
        | Other r \<Rightarrow> raises (Diagnostic (''Invalid abstract expression: '' @ r)))
       (\<lambda>ret.
          case expected_type of
            None \<Rightarrow> returns ret
          | Some t \<Rightarrow>
              and_then
                (check_source_language (static_type ret = t)
                   (''Expected type '' @ type_repr t @ '', got '' @ type_repr (static_type ret)))
                (\<lambda>_. returns ret))"

definition AbstractVariable_construct :: "compiled_type \<Rightarrow> name \<Rightarrow> resolved_expression run" where
  \<comment> \<open>Modelled from the spec: \<^verbatim>\<open>AbstractVariable.construct\<close> is missing; a
      reference to a variable resolves to a node of the variable's type.\<close>
  "AbstractVariable_construct t n = returns (VariableExpr t n)"

definition EnvVariable_construct :: "resolved_expression run" where
  "EnvVariable_construct =
     (\<lambda>s. and_then
        (check_source_language (has_ambient_env s)
           (''This property has no implicit environment parameter: please use''
            @ '' the eval_in_env construct to bind an environment first.''))
        (\<lambda>_. AbstractVariable_construct LexicalEnvType default_name) s)"

definition Env :: operand where
  "Env = AbstractExpression EnvVariable_construct"

definition EmptyEnv :: operand where
  "EmptyEnv = AbstractExpression
     (AbstractVariable_construct LexicalEnvType (Name ''AST_Envs.Empty_Env''))"

definition Self :: operand where
  \<comment> \<open>Modelled from the spec: \<^verbatim>\<open>Self\<close> is imported from the missing base
      module; it denotes the enclosing node.\<close>
  "Self = AbstractExpression (AbstractVariable_construct root_node (Name ''Self''))"

definition vars_create :: "string \<Rightarrow> compiled_type \<Rightarrow> name run" where
  \<comment> \<open>Modelled from the spec: \<^verbatim>\<open>PropertyDef.get().vars.create\<close> is missing; it
      declares a new named temporary of the property under construction, here
      numbered by the count of the temporaries declared before it.\<close>
  "vars_create prefix t s =
     (let p = current_property s;
          n = Name (prefix @ ''_'' @ str_of_nat (length (vars p)))
      in (Inr n, s\<lparr>current_property := p\<lparr>vars := vars p @ [(n, t)]\<rparr>\<rparr>))"

definition is_abstract_expression_or_str :: "operand \<Rightarrow> bool" where
  "is_abstract_expression_or_str x =
     (case x of AbstractExpression c \<Rightarrow> True | Str y \<Rightarrow> True | Bool b \<Rightarrow> False | Other r \<Rightarrow> False)"

definition operand_repr :: "operand \<Rightarrow> string" where
  "operand_repr x =
     (case x of
        AbstractExpression c \<Rightarrow> ''<AbstractExpression>''
      | Str y \<Rightarrow> y
      | Bool b \<Rightarrow> (if b then ''True'' else ''False'')
      | Other r \<Rightarrow> r)"

definition env_get :: "operand \<Rightarrow> operand \<Rightarrow> bool \<Rightarrow> bool \<Rightarrow> bool \<Rightarrow> resolved_expression run" where
  "env_get env_expr symbol_expr resolve_unique sequential recursive =
     and_then
       (if \<not> is_abstract_expression_or_str symbol_expr
        then check_source_language False
               (''Invalid key argument for Env.get: '' @ operand_repr symbol_expr)
        else returns ())
     (\<lambda>_. and_then (construct symbol_expr None)
     (\<lambda>sym_expr0.
        let sym_expr = (if static_type sym_expr0 = Token then GetSymbolExpr sym_expr0 else sym_expr0) in
        and_then
          (check_source_language (static_type sym_expr = Symbol)
             (''Wrong type for symbol expr: '' @ type_repr (static_type sym_expr)))
     (\<lambda>_. and_then (construct env_expr (Some LexicalEnvType))
     (\<lambda>env_resolved.
        and_then
          (if sequential
           then and_then (construct Self (Some root_node))
                  (\<lambda>self_resolved. returns
                     (''AST_Envs.Get  (Self      => {},   Key => {},   From => {},   Recursive => {})'',
                      [env_resolved, sym_expr, self_resolved]))
           else returns (''AST_Envs.Get (Self => {}, Key => {}, Recursive => {})'',
                         [env_resolved, sym_expr]))
     (\<lambda>(array_expr, sub_exprs0). and_then (construct (Bool recursive) (Some BoolType))
     (\<lambda>rec_resolved.
        let sub_exprs = sub_exprs0 @ [rec_resolved] in
        if resolve_unique
        then returns (BasicExpr (''Get ('' @ array_expr @ '', 0)'') env_el
                        sub_exprs (Some ''Env_Get_Result''))
        else returns (BasicExpr (''Create ('' @ array_expr @ '')'') (array_type env_el)
                        sub_exprs (Some ''Env_Get_Result''))))))))"

definition EnvBindExpr_init :: "resolved_expression \<Rightarrow> resolved_expression \<Rightarrow> resolved_expression run" where
  "EnvBindExpr_init env_expr to_eval_expr =
     and_then (vars_create ''New_Env'' LexicalEnvType)
       (\<lambda>env_var. returns (EnvBindExpr env_expr to_eval_expr env_var))"

definition eval_in_env :: "operand \<Rightarrow> operand \<Rightarrow> resolved_expression run" where
  "eval_in_env env_expr to_eval_expr =
     and_then (construct env_expr (Some LexicalEnvType))
       (\<lambda>env_resolved_expr.
          EnvVariable_bind
            (and_then (construct to_eval_expr None)
               (\<lambda>to_eval_resolved. EnvBindExpr_init env_resolved_expr to_eval_resolved)))"

definition env_orphan :: "operand \<Rightarrow> resolved_expression run" where
  "env_orphan env_expr =
     and_then (construct env_expr (Some LexicalEnvType))
       (\<lambda>e. returns (BuiltinCallExpr ''AST_Envs.Orphan'' LexicalEnvType [e] (Some ''Orphan_Env'')))"

subsection \<open>Rendering a bind node\<close>

text \<open>
  The two render methods of \<^verbatim>\<open>EnvBindExpr\<close>. The render methods of its
  sub-expressions belong to classes outside the sources at hand and are taken
  as parameters; \<^verbatim>\<open>str.format\<close> on the two fixed templates is written out.
\<close>

definition EnvBindExpr_render_pre ::
  "string run \<Rightarrow> string run \<Rightarrow> name \<Rightarrow> string run \<Rightarrow> string run" where
  "EnvBindExpr_render_pre env_expr_render_pre env_expr_render_expr env_var to_eval_render_pre =
     and_then env_expr_render_pre
       (\<lambda>env_expr_pre. and_then env_expr_render_expr
       (\<lambda>env_expr.
          let result = env_expr_pre @ [CHR 0x0A] @ base_name env_var @ '' := '' @ env_expr
                       @ '';'' @ [CHR 0x0A] @ ''Inc_Ref ('' @ base_name env_var @ '');''
          in bind_name env_var
               (and_then to_eval_render_pre
                  (\<lambda>to_eval_pre. returns (result @ [CHR 0x0A] @ to_eval_pre)))))"

definition EnvBindExpr_render_expr :: "name \<Rightarrow> string run \<Rightarrow> string run" where
  "EnvBindExpr_render_expr env_var to_eval_render_expr = bind_name env_var to_eval_render_expr"

definition Env_render_expr :: "string run" where
  \<comment> \<open>Modelled from the spec: the render method of a resolved reference to the
      ambient environment is missing; the state keeps a current textual binding name
      used when rendering.\<close>
  "Env_render_expr s = (Inr (base_name (var_name s)), s)"

text \<open>
  Rendering dispatches on the class of the node. For a bind node,
  \<^verbatim>\<open>render_pre\<close> and \<^verbatim>\<open>render_expr\<close> are the two methods of
  \<^verbatim>\<open>EnvBindExpr\<close> above, applied to the node's own fields
  \<^verbatim>\<open>env_expr\<close>, \<^verbatim>\<open>to_eval_expr\<close> and \<^verbatim>\<open>env_var\<close>; the public methods of
  \<^verbatim>\<open>ResolvedExpression\<close> that call \<^verbatim>\<open>_render_pre\<close> and \<^verbatim>\<open>_render_expr\<close>
  are outside the sources at hand and are taken to add nothing. The render
  methods of the other classes are the parameters \<open>base_pre\<close> and
  \<open>base_expr\<close>.
\<close>

fun render_expr :: "(resolved_expression \<Rightarrow> string run) \<Rightarrow> resolved_expression \<Rightarrow> string run" where
  "render_expr base_expr (EnvBindExpr env_expr to_eval_expr env_var) =
     EnvBindExpr_render_expr env_var (render_expr base_expr to_eval_expr)"
| "render_expr base_expr e = base_expr e"

fun render_pre ::
  "(resolved_expression \<Rightarrow> string run) \<Rightarrow> (resolved_expression \<Rightarrow> string run)
     \<Rightarrow> resolved_expression \<Rightarrow> string run" where
  "render_pre base_pre base_expr (EnvBindExpr env_expr to_eval_expr env_var) =
     EnvBindExpr_render_pre (render_pre base_pre base_expr env_expr) (render_expr base_expr env_expr)
       env_var (render_pre base_pre base_expr to_eval_expr)"
| "render_pre base_pre base_expr e = base_pre e"

definition AbstractVariable_render_pre :: "resolved_expression \<Rightarrow> string run" where
  \<comment> \<open>Modelled from the spec: the render methods of a variable reference are
      missing; a resolved node renders as a sequence of preparatory effects followed
      by a pure result expression. A reference to a variable has no preparatory
      effect; nodes of the other classes are not rendered here.\<close>
  "AbstractVariable_render_pre e =
     (case e of VariableExpr t n \<Rightarrow> returns [] | _ \<Rightarrow> raises NotImplementedError)"

definition AbstractVariable_render_expr :: "resolved_expression \<Rightarrow> string run" where
  \<comment> \<open>Modelled from the spec: the render methods of a variable reference are
      missing; the state keeps a current textual binding name used when rendering.
      A reference to \<^verbatim>\<open>Env\<close>, the variable of default name \<^verbatim>\<open>Current_Env\<close>,
      reads that current name; a reference to another variable, which this module
      never rebinds, its own name. Nodes of the other classes are not rendered here.\<close>
  "AbstractVariable_render_expr e =
     (case e of
        VariableExpr t n \<Rightarrow> if n = default_name then Env_render_expr else returns (base_name n)
      | _ \<Rightarrow> raises NotImplementedError)"

text \<open>
  A computation is balanced when its normal completion leaves the binding flag
  and the binding name as it found them.
\<close>

definition restores :: "'a run \<Rightarrow> bool" where
  "restores body =
     (\<forall>s v s'. body s = (Inr v, s') \<longrightarrow> is_bound s' = is_bound s \<and> var_name s' = var_name s)"

definition restores_operand :: "operand \<Rightarrow> bool" where
  "restores_operand x = (case x of AbstractExpression c \<Rightarrow> restores c | _ \<Rightarrow> True)"

section \<open>The lexer specification (\<^verbatim>\<open>lexer.py\<close>)\<close>

subsection \<open>Matchers\<close>

datatype matcher =
    Pattern string
  | PredefPattern string string
  | Literal string
  | NoCase string
  | Eof
  | Failure

text \<open>
  The code is Python 2, whose \<^verbatim>\<open>re.escape\<close> puts a backslash before every
  character that is not an ASCII letter or digit; so \<^verbatim>\<open>re.escape(c) != c\<close>
  holds exactly for those characters.
\<close>

definition is_alphanum :: "char \<Rightarrow> bool" where
  "is_alphanum c =
     (let n = (of_char c :: nat)
      in (48 \<le> n \<and> n \<le> 57) \<or> (65 \<le> n \<and> n \<le> 90) \<or> (97 \<le> n \<and> n \<le> 122))"

text \<open>
  \<^verbatim>\<open>repr\<close> of a Python 2 \<^verbatim>\<open>str\<close>: single quotes, or double quotes when the
  string has a single quote and no double quote; the quote and the backslash
  are escaped by a backslash, tab, newline and carriage return are written as
  a backslash and the letter \<^verbatim>\<open>t\<close>, \<^verbatim>\<open>n\<close> or \<^verbatim>\<open>r\<close>, and any other
  character outside the printable ASCII range as a backslash, the letter
  \<^verbatim>\<open>x\<close> and two hexadecimal digits.
\<close>

definition hex_digit :: "nat \<Rightarrow> char" where
  "hex_digit n = ''0123456789abcdef'' ! (n mod 16)"

definition repr_char :: "char \<Rightarrow> char \<Rightarrow> string" where
  "repr_char quote c =
     (let n = (of_char c :: nat)
      in if c = quote \<or> c = CHR 0x5C then [CHR 0x5C, c]
         else if c = CHR 0x09 then [CHR 0x5C, CHR ''t'']
         else if c = CHR 0x0A then [CHR 0x5C, CHR ''n'']
         else if c = CHR 0x0D then [CHR 0x5C, CHR ''r'']
         else if n < 32 \<or> 127 \<le> n then [CHR 0x5C, CHR ''x'', hex_digit (n div 16), hex_digit n]
         else [c])"

definition str_repr :: "string \<Rightarrow> string" where
  "str_repr x =
     (let quote = (if CHR 0x27 \<in> set x \<and> CHR 0x22 \<notin> set x then CHR 0x22 else CHR 0x27)
      in [quote] @ concat (map (repr_char quote) x) @ [quote])"

definition Pattern_max_match_length :: "string \<Rightarrow> error + nat" where
  "Pattern_max_match_length pattern =
     (if \<exists>c \<in> set pattern. \<not> is_alphanum c \<and> c \<noteq> CHR ''.'' \<and> c \<noteq> CHR 0x27
      then Inl (ValueError
             (''Cannot compute the maximum number of characters this''
              @ '' pattern will accept: '' @ str_repr pattern))
      else Inr (length pattern))"

fun max_match_length :: "matcher \<Rightarrow> error + nat" where
  "max_match_length (Pattern pattern) = Pattern_max_match_length pattern"
| "max_match_length (PredefPattern n pattern) = Pattern_max_match_length pattern"
| "max_match_length (Literal to_match) = Inr (length to_match)"
| "max_match_length (NoCase to_match) = Pattern_max_match_length to_match"
| "max_match_length Eof = Inr 0"
| "max_match_length Failure = Inl NotImplementedError"

subsection \<open>Token actions and the token catalog\<close>

datatype token_action_class = WithText | WithTrivia | WithSymbol

record token_action =
  index :: nat
  name :: "name option"
  action_class :: token_action_class
  start_ignore_layout :: bool
  end_ignore_layout :: bool

text \<open>
  \<^verbatim>\<open>TokenAction._counter\<close> is one counter for the whole process; it is the
  state that instantiating a token action reads and advances.
\<close>

definition TokenAction_init ::
  "token_action_class \<Rightarrow> bool \<Rightarrow> bool \<Rightarrow> nat \<Rightarrow> token_action \<times> nat" where
  "TokenAction_init cls start_ignore end_ignore counter =
     (\<lparr>index = counter, name = None, action_class = cls,
       start_ignore_layout = start_ignore, end_ignore_layout = end_ignore\<rparr>,
      Suc counter)"

definition token_value :: "token_action \<Rightarrow> nat" where
  "token_value a = index a"

text \<open>
  A class \<^verbatim>\<open>__dict__\<close>: its members by field name. Members that are not
  token actions are kept by their \<^verbatim>\<open>repr\<close>.
\<close>

datatype class_member = TokenActionMember token_action | OtherMember string

type_synonym class_dict = "(string \<times> class_member) list"

text \<open>
  The body of \<^verbatim>\<open>LexerToken\<close>, run when the module is imported, and the body
  of a user's token class: each declaration \<^verbatim>\<open>Field = WithText(...)\<close>
  instantiates an action and stores it under the field name.
\<close>

fun class_body ::
  "(string \<times> token_action_class \<times> bool \<times> bool) list \<Rightarrow> class_dict \<Rightarrow> nat \<Rightarrow> class_dict \<times> nat" where
  "class_body [] d counter = (d, counter)"
| "class_body ((fld_name, cls, start_ignore, end_ignore) # rest) d counter =
     (case TokenAction_init cls start_ignore end_ignore counter of
        (a, counter') \<Rightarrow> class_body rest (AList.update fld_name (TokenActionMember a) d) counter')"

definition LexerToken_class :: "class_dict \<times> nat" where
  "LexerToken_class =
     class_body [(''Termination'', WithText, False, False),
                 (''LexingFailure'', WithText, False, False)] [] 0"

text \<open>
  A token class is given by the dictionaries of the classes before
  \<^verbatim>\<open>LexerToken\<close> in its method resolution order, the class itself first;
  \<^verbatim>\<open>LexerToken\<close>'s own dictionary always comes last.
\<close>

type_synonym tokens_class = "class_dict list"

record lexer_token =
  token_fields :: "token_action list"
  mro :: "class_dict list"

definition setattr_class ::
  "string \<Rightarrow> class_member \<Rightarrow> tokens_class \<times> class_dict \<Rightarrow> tokens_class \<times> class_dict" where
  "setattr_class k v c =
     (case c of
        ([], base) \<Rightarrow> ([], AList.update k v base)
      | (d # ds, base) \<Rightarrow> (AList.update k v d # ds, base))"

text \<open>
  \<^verbatim>\<open>add_tokens\<close> walks \<^verbatim>\<open>klass.__dict__.items()\<close>, whose order Python 2
  leaves unspecified: \<open>items\<close> is that order. The name is set on the action
  object itself; the catalog and the class dictionaries both see it. A class
  body stores each action it instantiates under one field (\<^verbatim>\<open>class_body\<close>),
  and for such classes renaming the member of each field is the same as
  mutating the shared object; a class that stores one action object under two
  field names, or that is used for a second catalog, is outside this model.
\<close>

definition set_name :: "(string \<Rightarrow> name) \<Rightarrow> string \<times> class_member \<Rightarrow> string \<times> class_member" where
  "set_name from_camel kv =
     (case kv of
        (fld_name, TokenActionMember a) \<Rightarrow>
          (fld_name, TokenActionMember (a\<lparr>name := Some (from_camel fld_name)\<rparr>))
      | (fld_name, OtherMember r) \<Rightarrow> (fld_name, OtherMember r))"

fun member_actions :: "class_dict \<Rightarrow> token_action list" where
  "member_actions [] = []"
| "member_actions ((k, TokenActionMember a) # rest) = a # member_actions rest"
| "member_actions ((k, OtherMember r) # rest) = member_actions rest"

definition add_tokens ::
  "(string \<Rightarrow> name) \<Rightarrow> (class_dict \<Rightarrow> class_dict) \<Rightarrow> class_dict \<Rightarrow> token_action list" where
  "add_tokens from_camel items klass = member_actions (map (set_name from_camel) (items klass))"

definition LexerToken_init ::
  "(string \<Rightarrow> name) \<Rightarrow> (class_dict \<Rightarrow> class_dict) \<Rightarrow> tokens_class \<Rightarrow> bool \<Rightarrow> nat
     \<Rightarrow> lexer_token \<times> nat" where
  "LexerToken_init from_camel items cls track_indent counter =
     (let (c3, counter3) =
            (if track_indent then
               (case TokenAction_init WithText False False counter of (indent, counter1) \<Rightarrow>
                case TokenAction_init WithText False False counter1 of (dedent, counter2) \<Rightarrow>
                case TokenAction_init WithText False False counter2 of (newline, counter3) \<Rightarrow>
                  (setattr_class ''Newline'' (TokenActionMember newline)
                     (setattr_class ''Dedent'' (TokenActionMember dedent)
                        (setattr_class ''Indent'' (TokenActionMember indent)
                           (cls, fst LexerToken_class))),
                   counter3))
             else ((cls, fst LexerToken_class), counter));
          classes = fst c3 @ [snd c3]
      in (\<lparr>token_fields = concat (map (add_tokens from_camel items) classes),
           mro = map (map (set_name from_camel)) classes\<rparr>,
          counter3))"

fun getattr_tokens :: "class_dict list \<Rightarrow> string \<Rightarrow> class_member option" where
  "getattr_tokens [] attr = None"
| "getattr_tokens (d # ds) attr =
     (case map_of d attr of Some v \<Rightarrow> Some v | None \<Rightarrow> getattr_tokens ds attr)"

subsection \<open>Actions and rules\<close>

record alt =
  prev_token_cond :: "token_action list option"
  send :: "token_action option"
  match_size :: "int option"

datatype action =
    TokenAction token_action
  | Ignore
  | CaseAction nat "alt list" alt

text \<open>
  \<^verbatim>\<open>RuleAssoc\<close> stores whatever it is given, and \<^verbatim>\<open>add_rules\<close> looks at its
  arguments with \<^verbatim>\<open>type\<close>, \<^verbatim>\<open>len\<close> and \<^verbatim>\<open>isinstance\<close> only; so the
  values in a rule are matchers, actions, or any other Python value (kept by
  its \<^verbatim>\<open>repr\<close>, and taken to have no attribute \<^verbatim>\<open>name\<close>).
\<close>

datatype py_obj = MatcherObj matcher | ActionObj action | OtherObj string

record rule_assoc =
  matcher :: py_obj
  action :: py_obj

datatype rule_entry = Tuple "py_obj list" | RuleAssocInstance rule_assoc | OtherEntry string

datatype case_arg = AltArg alt | OtherArg string

text \<open>
  The loop of \<^verbatim>\<open>CaseAction.__init__\<close>. In Python 2 \<^verbatim>\<open>None <= n\<close> is true
  for every integer, so an alternative without a match size passes.
\<close>

fun check_alts :: "nat \<Rightarrow> case_arg list \<Rightarrow> error + alt list" where
  "check_alts max_match_len [] = Inr []"
| "check_alts max_match_len (OtherArg r # rest) =
     Inl (AssertionError (''Invalid alternative to Case matcher: '' @ r))"
| "check_alts max_match_len (AltArg a # rest) =
     (if (case match_size a of None \<Rightarrow> True | Some k \<Rightarrow> k \<le> int max_match_len)
      then (case check_alts max_match_len rest of
              Inl e \<Rightarrow> Inl e
            | Inr as \<Rightarrow> Inr (a # as))
      else Inl (AssertionError
             (''Match size for this Case alternative (''
              @ (case match_size a of None \<Rightarrow> ''None'' | Some k \<Rightarrow> str_of_int k)
              @ '') cannot be longer than the Case matcher (''
              @ str_of_nat max_match_len @ '' chars)'')))"

definition CaseAction_init :: "nat \<Rightarrow> case_arg list \<Rightarrow> error + action" where
  "CaseAction_init max_match_len alts =
     (case check_alts max_match_len alts of
        Inl e \<Rightarrow> Inl e
      | Inr [] \<Rightarrow> Inl IndexError
      | Inr (a # as) \<Rightarrow>
          if prev_token_cond (last (a # as)) = None
          then Inr (CaseAction max_match_len (butlast (a # as)) (last (a # as)))
          else Inl (AssertionError
                 (''The last alternative to a case matcher ''
                  @ ''must have no prev token condition'')))"

definition Case :: "matcher \<Rightarrow> case_arg list \<Rightarrow> error + rule_assoc" where
  "Case m alts =
     (case max_match_length m of
        Inl e \<Rightarrow> Inl e
      | Inr n \<Rightarrow>
          (case CaseAction_init n alts of
             Inl e \<Rightarrow> Inl e
           | Inr a \<Rightarrow> Inr \<lparr>matcher = MatcherObj m, action = ActionObj a\<rparr>))"

subsection \<open>The lexer\<close>

record lexer =
  tokens :: lexer_token
  patterns :: "string \<rightharpoonup> matcher"
  patterns_list :: "matcher list"
  rules :: "rule_assoc list"
  tokens_set :: "name set"
  track_indent :: bool
  literals_map :: "string \<rightharpoonup> py_obj"
  prefix :: "string option"
  token_actions :: "token_action_class \<Rightarrow> token_action set"

text \<open>\<^verbatim>\<open>str.lower\<close> of Python 2 in the C locale: ASCII letters only.\<close>

definition char_lower :: "char \<Rightarrow> char" where
  "char_lower c =
     (let n = (of_char c :: nat) in if 65 \<le> n \<and> n \<le> 90 then char_of (n + 32) else c)"

definition lower :: "string \<Rightarrow> string" where
  "lower x = map char_lower x"

text \<open>
  One turn of the loop of \<^verbatim>\<open>add_rules\<close>, and the loop. A failed
  \<^verbatim>\<open>assert\<close> leaves the lexer as the turns before it made it.
\<close>

definition append_rule :: "rule_assoc \<Rightarrow> lexer \<Rightarrow> lexer" where
  "append_rule r lx =
     (let lx' = lx\<lparr>rules := rules lx @ [r]\<rparr>
      in case matcher r of
           MatcherObj (Literal to_match) \<Rightarrow>
             lx'\<lparr>literals_map := (literals_map lx')(to_match \<mapsto> action r)\<rparr>
         | _ \<Rightarrow> lx')"

fun add_rules :: "rule_entry list \<Rightarrow> lexer \<Rightarrow> (error + unit) \<times> lexer" where
  "add_rules [] lx = (Inr (), lx)"
| "add_rules (Tuple [m, a] # rest) lx =
     add_rules rest (append_rule \<lparr>matcher = m, action = a\<rparr> lx)"
| "add_rules (Tuple elems # rest) lx = (Inl (AssertionError []), lx)"
| "add_rules (RuleAssocInstance r # rest) lx = add_rules rest (append_rule r lx)"
| "add_rules (OtherEntry r # rest) lx = (Inl (AssertionError []), lx)"

fun add_patterns :: "(string \<times> string) list \<Rightarrow> lexer \<Rightarrow> lexer" where
  "add_patterns [] lx = lx"
| "add_patterns ((k, v) # rest) lx =
     add_patterns rest
       (lx\<lparr>patterns := (patterns lx)(lower k \<mapsto> PredefPattern k v),
           patterns_list := patterns_list lx @ [PredefPattern k v]\<rparr>)"

definition member_obj :: "class_member \<Rightarrow> py_obj" where
  "member_obj v = (case v of TokenActionMember a \<Rightarrow> ActionObj (TokenAction a) | OtherMember r \<Rightarrow> OtherObj r)"

definition getattr_rule :: "string \<Rightarrow> (class_member \<Rightarrow> (error + lexer)) \<Rightarrow> lexer \<Rightarrow> error + lexer" where
  "getattr_rule attr k lx =
     (case getattr_tokens (mro (tokens lx)) attr of
        None \<Rightarrow> Inl (AttributeError attr)
      | Some v \<Rightarrow> k v)"

definition Lexer_init ::
  "(string \<Rightarrow> name) \<Rightarrow> (class_dict \<Rightarrow> class_dict) \<Rightarrow> tokens_class \<Rightarrow> bool \<Rightarrow> nat
     \<Rightarrow> (error + lexer) \<times> nat" where
  "Lexer_init from_camel items cls track counter =
     (case LexerToken_init from_camel items cls track counter of
        (toks, counter') \<Rightarrow>
          (let lx0 = \<lparr>tokens = toks, patterns = Map.empty, patterns_list = [], rules = [],
                      tokens_set = set (List.map_filter name (token_fields toks)),
                      track_indent = track, literals_map = Map.empty, prefix = None,
                      token_actions = (\<lambda>c. {el \<in> set (token_fields toks). action_class el = c})\<rparr>
           in (getattr_rule ''Termination'' (\<lambda>termination.
               getattr_rule ''LexingFailure'' (\<lambda>lexing_failure.
                 case add_rules [Tuple [MatcherObj Eof, member_obj termination],
                                 Tuple [MatcherObj Failure, member_obj lexing_failure]] lx0 of
                   (Inl e, lx1) \<Rightarrow> Inl e
                 | (Inr u, lx1) \<Rightarrow>
                     if track then
                       getattr_rule ''Newline'' (\<lambda>newline.
                         case add_rules [Tuple [MatcherObj (Literal [CHR 0x5C, CHR ''n'']),
                                                member_obj newline]] lx1 of
                           (Inl e, lx2) \<Rightarrow> Inl e
                         | (Inr u, lx2) \<Rightarrow> Inr lx2) lx1
                     else Inr lx1) lx0) lx0,
               counter')))"

definition emit :: "(string \<Rightarrow> lexer_token \<Rightarrow> matcher list \<Rightarrow> rule_assoc list \<Rightarrow> lexer \<Rightarrow> string) \<Rightarrow> lexer \<Rightarrow> string" where
  "emit render lx = render ''lexer/quex_lexer_spec'' (tokens lx) (patterns_list lx) (rules lx) lx"

definition sorted_tokens :: "lexer \<Rightarrow> token_action list" where
  "sorted_tokens lx = sort_key token_value (token_fields (tokens lx))"

text \<open>
  What \<^verbatim>\<open>token_base_name\<close> can be handed: a token action, a
  \<^verbatim>\<open>Name\<close>, a string, or any other value. \<^verbatim>\<open>Name.from_lower\<close> is a
  parameter. The message of the last \<^verbatim>\<open>assert\<close> reads
  \<^verbatim>\<open>self.tokens.__name__\<close>, an attribute that the token catalog, an instance,
  does not have: building the message raises before the assertion can.
\<close>

datatype token_ref = TokenActionRef token_action | NameRef name | StrRef string | OtherRef string

definition getattr_name :: "py_obj \<Rightarrow> error + name option" where
  "getattr_name x =
     (case x of
        ActionObj (TokenAction a) \<Rightarrow> Inr (name a)
      | MatcherObj (PredefPattern n pattern) \<Rightarrow> Inr (Some (Name n))
      | _ \<Rightarrow> Inl (AttributeError ''name''))"

definition token_base_name :: "(string \<Rightarrow> name) \<Rightarrow> lexer \<Rightarrow> token_ref \<Rightarrow> error + name option" where
  "token_base_name from_lower lx token =
     (case token of
        TokenActionRef a \<Rightarrow> Inr (name a)
      | NameRef n \<Rightarrow> if n \<in> tokens_set lx then Inr (Some n) else Inl (AssertionError [])
      | StrRef x \<Rightarrow>
          (let n = from_lower (lower x)
           in if n \<in> tokens_set lx then Inr (Some n)
              else (case literals_map lx x of
                      Some a \<Rightarrow> getattr_name a
                    | None \<Rightarrow>
                        Inl (Diagnostic
                          (x @ '' token literal is not part of the valid tokens for ''
                             @ ''this grammar''))))
      | OtherRef r \<Rightarrow> Inl (AttributeError ''__name__''))"

text \<open>
  The two tests of the loop of \<^verbatim>\<open>add_rules\<close>, read off as predicates on one
  entry: the entry that a failed \<^verbatim>\<open>assert\<close> stops at, and the rule
  association that the loop appends for any other entry.
\<close>

fun fails_assert :: "rule_entry \<Rightarrow> bool" where
  "fails_assert (Tuple [m, a]) = False"
| "fails_assert (Tuple elems) = True"
| "fails_assert (RuleAssocInstance r) = False"
| "fails_assert (OtherEntry r) = True"

fun entry_rule :: "rule_entry \<Rightarrow> rule_assoc list" where
  "entry_rule (Tuple [m, a]) = [\<lparr>matcher = m, action = a\<rparr>]"
| "entry_rule (Tuple elems) = []"
| "entry_rule (RuleAssocInstance r) = [r]"
| "entry_rule (OtherEntry r) = []"

definition is_literal_rule :: "string \<Rightarrow> rule_assoc \<Rightarrow> bool" where
  "is_literal_rule to_match r = (matcher r = MatcherObj (Literal to_match))"

text \<open>
  The calculator lexer of the docstring of \<^verbatim>\<open>Lexer\<close>, used as the running
  example: the token class declares \<^verbatim>\<open>Plus\<close>, \<^verbatim>\<open>Minus\<close>, \<^verbatim>\<open>Times\<close>,
  \<^verbatim>\<open>Div\<close> and \<^verbatim>\<open>Number\<close> right after the module is imported, and the
  lexer is built from it without indentation tracking. For these one-word
  names, \<^verbatim>\<open>Name.from_camel\<close> keeps the spelling and \<^verbatim>\<open>Name.from_lower\<close>
  capitalises it.
\<close>

definition calculator_tokens :: "(string \<times> token_action_class \<times> bool \<times> bool) list" where
  "calculator_tokens =
     [(''Plus'', WithText, False, False), (''Minus'', WithText, False, False),
      (''Times'', WithText, False, False), (''Div'', WithText, False, False),
      (''Number'', WithText, False, False)]"

definition calculator_lexer :: "(error + lexer) \<times> nat" where
  "calculator_lexer =
     (case class_body calculator_tokens [] (snd LexerToken_class) of
        (d, counter) \<Rightarrow> Lexer_init Name (\<lambda>klass. klass) [d] False counter)"

definition capitalized :: "string \<Rightarrow> name" where
  "capitalized x =
     Name (case x of
             [] \<Rightarrow> []
           | c # cs \<Rightarrow>
               (let n = (of_char c :: nat)
                in if 97 \<le> n \<and> n \<le> 122 then char_of (n - 32) else c) # cs)"

text \<open>
  The declarations of a class body, each paired with the reading of the
  counter at its instantiation; the class member that one such declaration
  stores, and the catalog entry it becomes once \<^verbatim>\<open>add_tokens\<close> has set its
  name. \<^verbatim>\<open>builtin_tokens\<close> are the declarations of \<^verbatim>\<open>LexerToken\<close> itself,
  \<^verbatim>\<open>layout_tokens\<close> the members that \<^verbatim>\<open>LexerToken.__init__\<close> sets on the
  class when indentation is tracked.
\<close>

definition numbered :: "nat \<Rightarrow> 'a list \<Rightarrow> (nat \<times> 'a) list" where
  "numbered c xs = zip [c..<c + length xs] xs"

definition declared_member :: "nat \<times> string \<times> token_action_class \<times> bool \<times> bool \<Rightarrow> string \<times> class_member" where
  "declared_member x =
     (case x of (i, fld_name, cls, start_ignore, end_ignore) \<Rightarrow>
        (fld_name, TokenActionMember \<lparr>index = i, name = None, action_class = cls,
           start_ignore_layout = start_ignore, end_ignore_layout = end_ignore\<rparr>))"

definition declared_action ::
  "(string \<Rightarrow> name) \<Rightarrow> nat \<times> string \<times> token_action_class \<times> bool \<times> bool \<Rightarrow> token_action" where
  "declared_action from_camel x =
     (case x of (i, fld_name, cls, start_ignore, end_ignore) \<Rightarrow>
        \<lparr>index = i, name = Some (from_camel fld_name), action_class = cls,
         start_ignore_layout = start_ignore, end_ignore_layout = end_ignore\<rparr>)"

definition builtin_tokens :: "(string \<times> token_action_class \<times> bool \<times> bool) list" where
  "builtin_tokens = [(''Termination'', WithText, False, False), (''LexingFailure'', WithText, False, False)]"

definition layout_tokens :: "(string \<times> token_action_class \<times> bool \<times> bool) list" where
  "layout_tokens = [(''Indent'', WithText, False, False), (''Dedent'', WithText, False, False),
                    (''Newline'', WithText, False, False)]"

section \<open>Properties of the environment binding discipline\<close>

subsection \<open>Running computations\<close>

lemma and_then_Inr:
  "and_then m f s = (Inr r, s') \<longleftrightarrow> (\<exists>v s1. m s = (Inr v, s1) \<and> f v s1 = (Inr r, s'))"
  by (auto simp: and_then_def split: prod.splits sum.splits)

lemma returns_eq: "returns v s = (r, s') \<longleftrightarrow> r = Inr v \<and> s' = s"
  by (auto simp: returns_def)

lemma raises_eq: "raises e s = (r, s') \<longleftrightarrow> r = Inl e \<and> s' = s"
  by (auto simp: raises_def)

lemma check_source_language_Inr:
  "check_source_language c m s = (Inr v, s') \<longleftrightarrow> c \<and> s' = s"
  by (auto simp: check_source_language_def returns_def raises_def)

subsection \<open>Balanced computations\<close>

lemma restores_bind: "restores body \<Longrightarrow> restores (EnvVariable_bind body)"
  unfolding restores_def EnvVariable_bind_def Let_def
  by (fastforce split: prod.splits sum.splits)

lemma restores_bind_default: "restores body \<Longrightarrow> restores (EnvVariable_bind_default prop body)"
  unfolding restores_def EnvVariable_bind_default_def Let_def bind_name_def
  by (fastforce split: prod.splits sum.splits if_splits)

lemma restores_and_then:
  "restores m \<Longrightarrow> (\<And>v. restores (f v)) \<Longrightarrow> restores (and_then m f)"
  unfolding restores_def and_then_Inr by metis

lemma restores_returns: "restores (returns v)"
  by (simp add: restores_def returns_eq)

lemma restores_raises: "restores (raises e)"
  by (simp add: restores_def raises_eq)

lemma restores_check: "restores (check_source_language c m)"
  by (simp add: check_source_language_def restores_returns restores_raises)

lemma restores_construct: "restores_operand x \<Longrightarrow> restores (construct x t)"
  unfolding construct_def
  by (intro restores_and_then)
     (auto simp: restores_operand_def restores_returns restores_raises restores_check
           split: operand.splits option.splits intro!: restores_and_then)

lemma restores_EnvVariable_construct: "restores EnvVariable_construct"
  unfolding restores_def EnvVariable_construct_def AbstractVariable_construct_def and_then_Inr
  by (auto simp: returns_eq check_source_language_Inr)

lemma restores_vars_create: "restores (vars_create p t)"
  by (auto simp: restores_def vars_create_def Let_def)

lemma restores_eval_in_env:
  "restores_operand E \<Longrightarrow> restores_operand X \<Longrightarrow> restores (eval_in_env E X)"
  unfolding eval_in_env_def EnvBindExpr_init_def
  by (intro restores_and_then restores_bind restores_construct restores_vars_create restores_returns)

lemma restores_env_get:
  "restores_operand env_expr \<Longrightarrow> restores_operand symbol_expr \<Longrightarrow>
   restores (env_get env_expr symbol_expr resolve_unique sequential recursive)"
  unfolding env_get_def Let_def Self_def
  by (intro restores_and_then restores_construct)
     (auto simp: restores_check restores_returns restores_operand_def AbstractVariable_construct_def
           split: prod.splits intro!: restores_and_then restores_construct)

lemma restores_operand_Env: "restores_operand Env"
  by (simp add: restores_operand_def Env_def restores_EnvVariable_construct)

lemma restores_operand_EmptyEnv: "restores_operand EmptyEnv"
  by (simp add: restores_operand_def EmptyEnv_def AbstractVariable_construct_def restores_returns)

lemma restores_operand_Other: "restores_operand (Other r)"
  by (simp add: restores_operand_def)

lemma str_of_nat_0: "str_of_nat 0 = ''0''"
  by code_simp

lemma str_of_nat_1: "str_of_nat (Suc 0) = ''1''"
  by code_simp

subsection \<open>Scoped binding\<close>

text \<open>
  C1, as the code has it. When the body of the scope completes normally,
  \<^verbatim>\<open>bind()\<close> and \<^verbatim>\<open>bind_default(prop)\<close> leave the binding flag and the
  binding name exactly as they were before the scope, for a body that is
  itself balanced; so the property carries over to every nest of such scopes.
  When the body raises, \<^verbatim>\<open>bind()\<close>, and \<^verbatim>\<open>bind_default(prop)\<close> for a
  property without implicit environment parameter, restore nothing: the error
  leaves the scope with the state in which the body raised it.
\<close>

theorem bind_scopes_restore_on_normal_exit:
  assumes "restores body"
  shows "restores (EnvVariable_bind body) \<and>
         restores (EnvVariable_bind_default prop body) \<and>
         (\<forall>s e s'. body (s\<lparr>is_bound := True\<rparr>) = (Inl e, s') \<longrightarrow>
            EnvVariable_bind body s = (Inl e, s')) \<and>
         (\<forall>s e s'. \<not> has_implicit_env prop \<longrightarrow> body (s\<lparr>is_bound := False\<rparr>) = (Inl e, s') \<longrightarrow>
            EnvVariable_bind_default prop body s = (Inl e, s'))"
proof -
  have "restores (EnvVariable_bind body)"
    using assms by (rule restores_bind)
  moreover have "restores (EnvVariable_bind_default prop body)"
    using assms by (rule restores_bind_default)
  moreover have "\<forall>s e s'. body (s\<lparr>is_bound := True\<rparr>) = (Inl e, s') \<longrightarrow>
      EnvVariable_bind body s = (Inl e, s')"
    by (simp add: EnvVariable_bind_def)
  moreover have "\<forall>s e s'. \<not> has_implicit_env prop \<longrightarrow> body (s\<lparr>is_bound := False\<rparr>) = (Inl e, s') \<longrightarrow>
      EnvVariable_bind_default prop body s = (Inl e, s')"
    by (simp add: EnvVariable_bind_default_def)
  ultimately show ?thesis by blast
qed

theorem bind_scopes_restore_on_normal_exit_witness:
  "restores (EnvVariable_bind
     (EnvVariable_bind_default \<lparr>has_implicit_env = False, vars = []\<rparr>
        (EnvVariable_bind EnvVariable_construct))) \<and>
   EnvVariable_bind
     (EnvVariable_bind_default \<lparr>has_implicit_env = False, vars = []\<rparr>
        (EnvVariable_bind EnvVariable_construct))
     \<lparr>is_bound = False, var_name = Name ''Current_Env'',
       current_property = \<lparr>has_implicit_env = False, vars = []\<rparr>\<rparr>
   = (Inr (VariableExpr LexicalEnvType (Name ''Current_Env'')),
      \<lparr>is_bound = False, var_name = Name ''Current_Env'',
        current_property = \<lparr>has_implicit_env = False, vars = []\<rparr>\<rparr>) \<and>
   EnvVariable_bind_default \<lparr>has_implicit_env = False, vars = []\<rparr>
     (env_get Env (Other ''42'') False False True)
     \<lparr>is_bound = True, var_name = Name ''Current_Env'',
       current_property = \<lparr>has_implicit_env = False, vars = []\<rparr>\<rparr>
   = (Inl (Diagnostic ''Invalid key argument for Env.get: 42''),
      \<lparr>is_bound = False, var_name = Name ''Current_Env'',
        current_property = \<lparr>has_implicit_env = False, vars = []\<rparr>\<rparr>)"
proof -
  let ?p = "\<lparr>has_implicit_env = False, vars = []\<rparr>"
  let ?s0 = "\<lparr>is_bound = False, var_name = Name ''Current_Env'', current_property = ?p\<rparr>"
  let ?s1 = "\<lparr>is_bound = True, var_name = Name ''Current_Env'', current_property = ?p\<rparr>"
  let ?failing = "env_get Env (Other ''42'') False False True"
  note inner = bind_scopes_restore_on_normal_exit [OF restores_EnvVariable_construct]
  note middle = bind_scopes_restore_on_normal_exit [OF inner [THEN conjunct1], of ?p]
  note outer = bind_scopes_restore_on_normal_exit [OF middle [THEN conjunct2, THEN conjunct1]]
  have nest: "restores (EnvVariable_bind (EnvVariable_bind_default ?p (EnvVariable_bind EnvVariable_construct)))"
    using outer by (rule conjunct1)
  have run: "EnvVariable_bind (EnvVariable_bind_default ?p (EnvVariable_bind EnvVariable_construct)) ?s0
      = (Inr (VariableExpr LexicalEnvType (Name ''Current_Env'')), ?s0)"
    by (simp add: EnvVariable_bind_def EnvVariable_bind_default_def EnvVariable_construct_def
          and_then_def check_source_language_def has_ambient_env_def returns_def
          AbstractVariable_construct_def default_name_def)
  have body_fails: "?failing (?s1\<lparr>is_bound := False\<rparr>)
      = (Inl (Diagnostic ''Invalid key argument for Env.get: 42''), ?s0)"
    by (simp add: env_get_def and_then_def is_abstract_expression_or_str_def
          check_source_language_def raises_def operand_repr_def)
  have "restores ?failing"
    by (rule restores_env_get [OF restores_operand_Env restores_operand_Other])
  from bind_scopes_restore_on_normal_exit [OF this, of ?p]
  have "\<forall>s e s'. \<not> has_implicit_env ?p \<longrightarrow> ?failing (s\<lparr>is_bound := False\<rparr>) = (Inl e, s')
          \<longrightarrow> EnvVariable_bind_default ?p ?failing s = (Inl e, s')"
    by blast
  with body_fails
  have fails: "EnvVariable_bind_default ?p ?failing ?s1
      = (Inl (Diagnostic ''Invalid key argument for Env.get: 42''), ?s0)"
    by simp
  from nest run fails show ?thesis by blast
qed

theorem bind_not_restored_on_fatal_diagnostic:
  "EnvVariable_bind (env_get Env (Other ''42'') False False True)
     \<lparr>is_bound = False, var_name = Name ''Current_Env'',
       current_property = \<lparr>has_implicit_env = False, vars = []\<rparr>\<rparr>
   = (Inl (Diagnostic ''Invalid key argument for Env.get: 42''),
      \<lparr>is_bound = True, var_name = Name ''Current_Env'',
        current_property = \<lparr>has_implicit_env = False, vars = []\<rparr>\<rparr>) \<and>
   is_bound \<lparr>is_bound = True, var_name = Name ''Current_Env'',
             current_property = \<lparr>has_implicit_env = False, vars = []\<rparr>\<rparr>
   \<noteq> is_bound \<lparr>is_bound = False, var_name = Name ''Current_Env'',
                current_property = \<lparr>has_implicit_env = False, vars = []\<rparr>\<rparr>"
  by (simp add: EnvVariable_bind_def env_get_def and_then_def is_abstract_expression_or_str_def
        check_source_language_def raises_def operand_repr_def)

subsection \<open>The ambient environment\<close>

text \<open>
  C4. \<^verbatim>\<open>has_ambient_env\<close> holds exactly when the property under construction
  has an implicit environment parameter or the environment is bound.
  Constructing a reference to \<^verbatim>\<open>Env\<close> without it fails with the fatal
  diagnostic that tells the author to bind an environment with
  \<^verbatim>\<open>eval_in_env\<close>, and yields no node; with it, the reference resolves to
  the variable of type \<^verbatim>\<open>LexicalEnvType\<close>.
\<close>

theorem env_reference_needs_ambient_env:
  "has_ambient_env s = (has_implicit_env (current_property s) \<or> is_bound s) \<and>
   (\<not> has_ambient_env s \<longrightarrow>
      EnvVariable_construct s =
        (Inl (Diagnostic (''This property has no implicit environment parameter: please use''
                          @ '' the eval_in_env construct to bind an environment first.'')), s)) \<and>
   (has_ambient_env s \<longrightarrow>
      EnvVariable_construct s = (Inr (VariableExpr LexicalEnvType default_name), s))"
  by (simp add: has_ambient_env_def EnvVariable_construct_def and_then_def
        check_source_language_def returns_def raises_def AbstractVariable_construct_def)

theorem env_reference_needs_ambient_env_witness:
  "\<not> has_ambient_env \<lparr>is_bound = False, var_name = Name ''Current_Env'',
                       current_property = \<lparr>has_implicit_env = False, vars = []\<rparr>\<rparr> \<and>
   EnvVariable_construct \<lparr>is_bound = False, var_name = Name ''Current_Env'',
                          current_property = \<lparr>has_implicit_env = False, vars = []\<rparr>\<rparr>
   = (Inl (Diagnostic (''This property has no implicit environment parameter: please use''
                       @ '' the eval_in_env construct to bind an environment first.'')),
      \<lparr>is_bound = False, var_name = Name ''Current_Env'',
        current_property = \<lparr>has_implicit_env = False, vars = []\<rparr>\<rparr>) \<and>
   has_ambient_env \<lparr>is_bound = False, var_name = Name ''Current_Env'',
                     current_property = \<lparr>has_implicit_env = True, vars = []\<rparr>\<rparr> \<and>
   EnvVariable_construct \<lparr>is_bound = False, var_name = Name ''Current_Env'',
                          current_property = \<lparr>has_implicit_env = True, vars = []\<rparr>\<rparr>
   = (Inr (VariableExpr LexicalEnvType (Name ''Current_Env'')),
      \<lparr>is_bound = False, var_name = Name ''Current_Env'',
        current_property = \<lparr>has_implicit_env = True, vars = []\<rparr>\<rparr>) \<and>
   has_ambient_env \<lparr>is_bound = True, var_name = Name ''Current_Env'',
                     current_property = \<lparr>has_implicit_env = False, vars = []\<rparr>\<rparr>"
  using
    env_reference_needs_ambient_env
      [of "\<lparr>is_bound = False, var_name = Name ''Current_Env'',
            current_property = \<lparr>has_implicit_env = False, vars = []\<rparr>\<rparr>"]
    env_reference_needs_ambient_env
      [of "\<lparr>is_bound = False, var_name = Name ''Current_Env'',
            current_property = \<lparr>has_implicit_env = True, vars = []\<rparr>\<rparr>"]
    env_reference_needs_ambient_env
      [of "\<lparr>is_bound = True, var_name = Name ''Current_Env'',
            current_property = \<lparr>has_implicit_env = False, vars = []\<rparr>\<rparr>"]
  by (simp add: default_name_def)

subsection \<open>Environment lookup\<close>

lemma construct_Self:
  "construct Self (Some root_node) s = (Inr (VariableExpr root_node (Name ''Self'')), s)"
  by (simp add: construct_def Self_def AbstractVariable_construct_def and_then_def returns_def
        check_source_language_def)

lemma construct_Bool:
  "construct (Bool b) (Some BoolType) s = (Inr (BoolLiteralExpr b), s)"
  by (simp add: construct_def and_then_def returns_def check_source_language_def)

lemma env_get_run:
  "env_get env_expr symbol_expr resolve_unique sequential recursive s =
     (if \<not> is_abstract_expression_or_str symbol_expr
      then (Inl (Diagnostic (''Invalid key argument for Env.get: '' @ operand_repr symbol_expr)), s)
      else case construct symbol_expr None s of
             (Inl err, s1) \<Rightarrow> (Inl err, s1)
           | (Inr sym0, s1) \<Rightarrow>
               (let sym_expr = (if static_type sym0 = Token then GetSymbolExpr sym0 else sym0)
                in if static_type sym_expr \<noteq> Symbol
                   then (Inl (Diagnostic (''Wrong type for symbol expr: ''
                                          @ type_repr (static_type sym_expr))), s1)
                   else case construct env_expr (Some LexicalEnvType) s1 of
                          (Inl err, s2) \<Rightarrow> (Inl err, s2)
                        | (Inr e, s2) \<Rightarrow>
                            (Inr (BasicExpr
                                   ((if resolve_unique then ''Get ('' else ''Create ('')
                                    @ (if sequential
                                       then ''AST_Envs.Get  (Self      => {},   Key => {},   From => {},   Recursive => {})''
                                       else ''AST_Envs.Get (Self => {}, Key => {}, Recursive => {})'')
                                    @ (if resolve_unique then '', 0)'' else '')''))
                                   (if resolve_unique then env_el else array_type env_el)
                                   ([e, sym_expr]
                                    @ (if sequential then [VariableExpr root_node (Name ''Self'')] else [])
                                    @ [BoolLiteralExpr recursive])
                                   (Some ''Env_Get_Result'')), s2)))"
  unfolding env_get_def Let_def
  by (cases resolve_unique; cases sequential)
     (simp_all add: and_then_def returns_def raises_def check_source_language_def
        construct_Self construct_Bool split: prod.splits sum.splits)

text \<open>
  C8. \<^verbatim>\<open>env_get\<close> succeeds exactly when the key is an abstract expression
  or a string, resolves to a symbol or to a token (a token is wrapped in the
  node that interns it), and the environment operand then resolves to a
  lexical environment. The node it returns is fully determined: its operands
  are the environment, the key, the enclosing node when the lookup is
  sequential, and the recursion flag; its text is the lookup
  \<^verbatim>\<open>AST_Envs.Get (...)\<close> wrapped in \<^verbatim>\<open>Create (...)\<close>, of static type array of
  \<^verbatim>\<open>env_el\<close>, unless \<^verbatim>\<open>resolve_unique\<close> is set; then the same lookup, on
  the same operands, is wrapped in \<^verbatim>\<open>Get (..., 0)\<close>, element 0 of the lookup's
  result array, of static type \<^verbatim>\<open>env_el\<close>, with no check of how many results
  there are. A lookup with a literal string key succeeds as soon as the
  environment operand resolves to a lexical environment.
\<close>

theorem env_get_result_type:
  "(env_get env_expr symbol_expr resolve_unique sequential recursive s = (Inr r, s') \<longleftrightarrow>
      is_abstract_expression_or_str symbol_expr \<and>
      (\<exists>sym0 s1 e.
         construct symbol_expr None s = (Inr sym0, s1) \<and>
         (static_type sym0 = Token \<or> static_type sym0 = Symbol) \<and>
         construct env_expr (Some LexicalEnvType) s1 = (Inr e, s') \<and>
         r = BasicExpr
               ((if resolve_unique then ''Get ('' else ''Create ('')
                @ (if sequential
                   then ''AST_Envs.Get  (Self      => {},   Key => {},   From => {},   Recursive => {})''
                   else ''AST_Envs.Get (Self => {}, Key => {}, Recursive => {})'')
                @ (if resolve_unique then '', 0)'' else '')''))
               (if resolve_unique then env_el else array_type env_el)
               ([e, if static_type sym0 = Token then GetSymbolExpr sym0 else sym0]
                @ (if sequential then [VariableExpr root_node (Name ''Self'')] else [])
                @ [BoolLiteralExpr recursive])
               (Some ''Env_Get_Result''))) \<and>
   (env_get env_expr symbol_expr resolve_unique sequential recursive s = (Inr r, s') \<longrightarrow>
      static_type r = (if resolve_unique then env_el else array_type env_el)) \<and>
   (construct env_expr (Some LexicalEnvType) s = (Inr e, s1) \<longrightarrow>
      env_get env_expr (Str key) resolve_unique False recursive s =
        (Inr (BasicExpr
               (if resolve_unique
                then ''Get (AST_Envs.Get (Self => {}, Key => {}, Recursive => {}), 0)''
                else ''Create (AST_Envs.Get (Self => {}, Key => {}, Recursive => {}))'')
               (if resolve_unique then env_el else array_type env_el)
               [e, SymbolLiteralExpr key, BoolLiteralExpr recursive]
               (Some ''Env_Get_Result'')), s1))"
proof -
  have node: "env_get env_expr symbol_expr resolve_unique sequential recursive s = (Inr r, s') \<longleftrightarrow>
      is_abstract_expression_or_str symbol_expr \<and>
      (\<exists>sym0 s1 e.
         construct symbol_expr None s = (Inr sym0, s1) \<and>
         (static_type sym0 = Token \<or> static_type sym0 = Symbol) \<and>
         construct env_expr (Some LexicalEnvType) s1 = (Inr e, s') \<and>
         r = BasicExpr
               ((if resolve_unique then ''Get ('' else ''Create ('')
                @ (if sequential
                   then ''AST_Envs.Get  (Self      => {},   Key => {},   From => {},   Recursive => {})''
                   else ''AST_Envs.Get (Self => {}, Key => {}, Recursive => {})'')
                @ (if resolve_unique then '', 0)'' else '')''))
               (if resolve_unique then env_el else array_type env_el)
               ([e, if static_type sym0 = Token then GetSymbolExpr sym0 else sym0]
                @ (if sequential then [VariableExpr root_node (Name ''Self'')] else [])
                @ [BoolLiteralExpr recursive])
               (Some ''Env_Get_Result''))"
    unfolding env_get_run Let_def
    by (auto split: prod.splits sum.splits)
  have typed: "env_get env_expr symbol_expr resolve_unique sequential recursive s = (Inr r, s') \<longrightarrow>
      static_type r = (if resolve_unique then env_el else array_type env_el)"
    unfolding node by auto
  have succeeds: "construct env_expr (Some LexicalEnvType) s = (Inr e, s1) \<longrightarrow>
      env_get env_expr (Str key) resolve_unique False recursive s =
        (Inr (BasicExpr
               (if resolve_unique
                then ''Get (AST_Envs.Get (Self => {}, Key => {}, Recursive => {}), 0)''
                else ''Create (AST_Envs.Get (Self => {}, Key => {}, Recursive => {}))'')
               (if resolve_unique then env_el else array_type env_el)
               [e, SymbolLiteralExpr key, BoolLiteralExpr recursive]
               (Some ''Env_Get_Result'')), s1)"
    by (simp add: env_get_def construct_def and_then_def returns_def
          check_source_language_def is_abstract_expression_or_str_def
          split: prod.splits sum.splits)
  from node typed succeeds show ?thesis by blast
qed

theorem env_get_result_type_witness:
  "env_get EmptyEnv (Str ''foo'') False False True
     \<lparr>is_bound = False, var_name = Name ''Current_Env'',
       current_property = \<lparr>has_implicit_env = False, vars = []\<rparr>\<rparr>
   = (Inr (BasicExpr ''Create (AST_Envs.Get (Self => {}, Key => {}, Recursive => {}))''
            (array_type env_el)
            [VariableExpr LexicalEnvType (Name ''AST_Envs.Empty_Env''),
             SymbolLiteralExpr ''foo'', BoolLiteralExpr True]
            (Some ''Env_Get_Result'')),
      \<lparr>is_bound = False, var_name = Name ''Current_Env'',
        current_property = \<lparr>has_implicit_env = False, vars = []\<rparr>\<rparr>) \<and>
   static_type (BasicExpr ''Create (AST_Envs.Get (Self => {}, Key => {}, Recursive => {}))''
            (array_type env_el)
            [VariableExpr LexicalEnvType (Name ''AST_Envs.Empty_Env''),
             SymbolLiteralExpr ''foo'', BoolLiteralExpr True]
            (Some ''Env_Get_Result'')) = array_type env_el \<and>
   env_get EmptyEnv (Str ''foo'') True False True
     \<lparr>is_bound = False, var_name = Name ''Current_Env'',
       current_property = \<lparr>has_implicit_env = False, vars = []\<rparr>\<rparr>
   = (Inr (BasicExpr ''Get (AST_Envs.Get (Self => {}, Key => {}, Recursive => {}), 0)''
            env_el
            [VariableExpr LexicalEnvType (Name ''AST_Envs.Empty_Env''),
             SymbolLiteralExpr ''foo'', BoolLiteralExpr True]
            (Some ''Env_Get_Result'')),
      \<lparr>is_bound = False, var_name = Name ''Current_Env'',
        current_property = \<lparr>has_implicit_env = False, vars = []\<rparr>\<rparr>) \<and>
   env_get EmptyEnv (AbstractExpression (AbstractVariable_construct Token (Name ''Tok''))) True True False
     \<lparr>is_bound = False, var_name = Name ''Current_Env'',
       current_property = \<lparr>has_implicit_env = False, vars = []\<rparr>\<rparr>
   = (Inr (BasicExpr
            (''Get (AST_Envs.Get  (Self      => {},   Key => {},   From => {},   Recursive => {})''
             @ '', 0)'')
            env_el
            [VariableExpr LexicalEnvType (Name ''AST_Envs.Empty_Env''),
             GetSymbolExpr (VariableExpr Token (Name ''Tok'')),
             VariableExpr root_node (Name ''Self''), BoolLiteralExpr False]
            (Some ''Env_Get_Result'')),
      \<lparr>is_bound = False, var_name = Name ''Current_Env'',
        current_property = \<lparr>has_implicit_env = False, vars = []\<rparr>\<rparr>)"
proof -
  let ?s0 = "\<lparr>is_bound = False, var_name = Name ''Current_Env'',
              current_property = \<lparr>has_implicit_env = False, vars = []\<rparr>\<rparr>"
  let ?e = "VariableExpr LexicalEnvType (Name ''AST_Envs.Empty_Env'')"
  let ?tok = "AbstractExpression (AbstractVariable_construct Token (Name ''Tok''))"
  let ?node = "BasicExpr
            (''Get (AST_Envs.Get  (Self      => {},   Key => {},   From => {},   Recursive => {})''
             @ '', 0)'')
            env_el
            [?e, GetSymbolExpr (VariableExpr Token (Name ''Tok'')),
             VariableExpr root_node (Name ''Self''), BoolLiteralExpr False]
            (Some ''Env_Get_Result'')"
  have env: "construct EmptyEnv (Some LexicalEnvType) ?s0 = (Inr ?e, ?s0)"
    by (simp add: construct_def EmptyEnv_def AbstractVariable_construct_def and_then_def
          returns_def check_source_language_def)
  have key: "construct ?tok None ?s0 = (Inr (VariableExpr Token (Name ''Tok'')), ?s0)"
    by (simp add: construct_def AbstractVariable_construct_def and_then_def returns_def)
  note array = env_get_result_type
    [of EmptyEnv "Str ''foo''" False False True ?s0 _ _ ?e ?s0 "''foo''"]
  note single = env_get_result_type
    [of EmptyEnv "Str ''foo''" True False True ?s0 _ _ ?e ?s0 "''foo''"]
  note sequential = env_get_result_type
    [of EmptyEnv ?tok True True False ?s0 ?node ?s0, THEN conjunct1, THEN iffD2]
  have "env_get EmptyEnv ?tok True True False ?s0 = (Inr ?node, ?s0)"
  proof (rule sequential, intro conjI exI)
    show "is_abstract_expression_or_str ?tok"
      by (simp add: is_abstract_expression_or_str_def)
    show "construct ?tok None ?s0 = (Inr (VariableExpr Token (Name ''Tok'')), ?s0)"
      by (rule key)
    show "construct EmptyEnv (Some LexicalEnvType) ?s0 = (Inr ?e, ?s0)"
      by (rule env)
    show "static_type (VariableExpr Token (Name ''Tok'')) = Token \<or>
          static_type (VariableExpr Token (Name ''Tok'')) = Symbol"
      by simp
    show "?node = BasicExpr
               ((if True then ''Get ('' else ''Create ('')
                @ (if True
                   then ''AST_Envs.Get  (Self      => {},   Key => {},   From => {},   Recursive => {})''
                   else ''AST_Envs.Get (Self => {}, Key => {}, Recursive => {})'')
                @ (if True then '', 0)'' else '')''))
               (if True then env_el else array_type env_el)
               ([?e, if static_type (VariableExpr Token (Name ''Tok'')) = Token
                     then GetSymbolExpr (VariableExpr Token (Name ''Tok''))
                     else VariableExpr Token (Name ''Tok'')]
                @ (if True then [VariableExpr root_node (Name ''Self'')] else [])
                @ [BoolLiteralExpr False])
               (Some ''Env_Get_Result'')"
      by simp
  qed
  with env array single show ?thesis by simp
qed

subsection \<open>Rebinding the environment\<close>

lemma construct_Env:
  "has_ambient_env s \<Longrightarrow>
   construct Env None s = (Inr (VariableExpr LexicalEnvType default_name), s)"
  by (simp add: construct_def Env_def EnvVariable_construct_def AbstractVariable_construct_def
        and_then_def returns_def check_source_language_def)

lemma EnvBindExpr_render_expr_run:
  "EnvBindExpr_render_expr w q t =
     (fst (q (t\<lparr>var_name := w\<rparr>)), (snd (q (t\<lparr>var_name := w\<rparr>)))\<lparr>var_name := var_name t\<rparr>)"
  by (simp add: EnvBindExpr_render_expr_def bind_name_def Let_def split: prod.splits)

lemma EnvBindExpr_render_pre_run:
  assumes "rp_e t = (Inr pe, t1)" and "re_e t1 = (Inr ee, t2)"
    and "rp_x (t2\<lparr>var_name := v\<rparr>) = (Inr px, t3)"
  shows "EnvBindExpr_render_pre rp_e re_e v rp_x t =
     (Inr (pe @ [CHR 0x0A] @ base_name v @ '' := '' @ ee @ '';'' @ [CHR 0x0A]
           @ ''Inc_Ref ('' @ base_name v @ '');'' @ [CHR 0x0A] @ px),
      t3\<lparr>var_name := var_name t2\<rparr>)"
  using assms
  by (simp add: EnvBindExpr_render_pre_def and_then_def bind_name_def returns_def Let_def)

lemma eval_in_env_run:
  assumes "construct E (Some LexicalEnvType) s = (Inr e, s1)"
    and "construct X None (s1\<lparr>is_bound := True\<rparr>) = (Inr x, s2)"
  shows "eval_in_env E X s =
     (Inr (EnvBindExpr e x (Name (''New_Env_'' @ str_of_nat (length (vars (current_property s2)))))),
      s2\<lparr>is_bound := is_bound s1,
         current_property := (current_property s2)
           \<lparr>vars := vars (current_property s2)
              @ [(Name (''New_Env_'' @ str_of_nat (length (vars (current_property s2)))),
                  LexicalEnvType)]\<rparr>\<rparr>)"
  using assms
  by (simp add: eval_in_env_def and_then_def EnvVariable_bind_def
        EnvBindExpr_init_def vars_create_def Let_def returns_def)

text \<open>
  C3. \<^verbatim>\<open>eval_in_env(E, X)\<close> constructs \<^verbatim>\<open>E\<close> first, in the binding state of
  the call: a failure of \<^verbatim>\<open>E\<close> is the failure of the whole. It then
  constructs \<^verbatim>\<open>X\<close> with the environment marked bound, so that the ambient
  environment is available there, and returns the bind node of \<^verbatim>\<open>E\<close>,
  \<^verbatim>\<open>X\<close> and a new local variable \<^verbatim>\<open>New_Env\<close> of the property; the flag is
  then again what it was after \<^verbatim>\<open>E\<close>, and for balanced operands flag and
  name are those before the call. Rendering the bind node first renders
  \<^verbatim>\<open>E\<close> under the name in force outside the node and assigns its value to the
  node's variable, then renders \<^verbatim>\<open>X\<close> under the name of that variable, and
  puts the previous name back. So a reference to the ambient environment in
  \<^verbatim>\<open>X\<close> reads the variable that holds the value of \<^verbatim>\<open>E\<close>, in a nest the
  innermost one, and a reference in \<^verbatim>\<open>E\<close> reads the binding around the node.
\<close>

theorem eval_in_env_scoping:
  "(\<forall>err s1. construct E (Some LexicalEnvType) s = (Inl err, s1) \<longrightarrow>
      eval_in_env E X s = (Inl err, s1)) \<and>
   (\<forall>e s1. construct E (Some LexicalEnvType) s = (Inr e, s1) \<longrightarrow>
      has_ambient_env (s1\<lparr>is_bound := True\<rparr>) \<and>
      (\<forall>err s2. construct X None (s1\<lparr>is_bound := True\<rparr>) = (Inl err, s2) \<longrightarrow>
         eval_in_env E X s = (Inl err, s2)) \<and>
      (\<forall>x s2. construct X None (s1\<lparr>is_bound := True\<rparr>) = (Inr x, s2) \<longrightarrow>
         eval_in_env E X s =
           (Inr (EnvBindExpr e x
                   (Name (''New_Env_'' @ str_of_nat (length (vars (current_property s2)))))),
            s2\<lparr>is_bound := is_bound s1,
               current_property := (current_property s2)
                 \<lparr>vars := vars (current_property s2)
                    @ [(Name (''New_Env_'' @ str_of_nat (length (vars (current_property s2)))),
                        LexicalEnvType)]\<rparr>\<rparr>)) \<and>
      eval_in_env E Env s =
        (Inr (EnvBindExpr e (VariableExpr LexicalEnvType default_name)
                (Name (''New_Env_'' @ str_of_nat (length (vars (current_property s1)))))),
         s1\<lparr>current_property := (current_property s1)
               \<lparr>vars := vars (current_property s1)
                  @ [(Name (''New_Env_'' @ str_of_nat (length (vars (current_property s1)))),
                      LexicalEnvType)]\<rparr>\<rparr>)) \<and>
   (restores_operand E \<and> restores_operand X \<longrightarrow> restores (eval_in_env E X)) \<and>
   render_expr be (EnvBindExpr e x v) t =
     (fst (render_expr be x (t\<lparr>var_name := v\<rparr>)),
      (snd (render_expr be x (t\<lparr>var_name := v\<rparr>)))\<lparr>var_name := var_name t\<rparr>) \<and>
   (\<forall>pe t1 ee t2 px t3.
      render_pre bp be e t = (Inr pe, t1) \<and> render_expr be e t1 = (Inr ee, t2) \<and>
      render_pre bp be x (t2\<lparr>var_name := v\<rparr>) = (Inr px, t3) \<longrightarrow>
      render_pre bp be (EnvBindExpr e x v) t =
        (Inr (pe @ [CHR 0x0A] @ base_name v @ '' := '' @ ee @ '';'' @ [CHR 0x0A]
              @ ''Inc_Ref ('' @ base_name v @ '');'' @ [CHR 0x0A] @ px),
         t3\<lparr>var_name := var_name t2\<rparr>)) \<and>
   (be (VariableExpr LexicalEnvType default_name) = Env_render_expr \<and>
    bp (VariableExpr LexicalEnvType default_name) = returns [] \<longrightarrow>
      render_expr be (EnvBindExpr e (VariableExpr LexicalEnvType default_name) v) t
        = (Inr (base_name v), t) \<and>
      render_expr be
        (EnvBindExpr e (EnvBindExpr e' (VariableExpr LexicalEnvType default_name) v') v) t
        = (Inr (base_name v'), t) \<and>
      render_pre bp be
        (EnvBindExpr (VariableExpr LexicalEnvType default_name)
           (VariableExpr LexicalEnvType default_name) v) t
        = (Inr ([CHR 0x0A] @ base_name v @ '' := '' @ base_name (var_name t) @ '';'' @ [CHR 0x0A]
                @ ''Inc_Ref ('' @ base_name v @ '');'' @ [CHR 0x0A]), t) \<and>
      (\<forall>pe t1 ee t2.
         render_pre bp be e t = (Inr pe, t1) \<and> render_expr be e t1 = (Inr ee, t2) \<longrightarrow>
         render_pre bp be
           (EnvBindExpr e
              (EnvBindExpr (VariableExpr LexicalEnvType default_name)
                 (VariableExpr LexicalEnvType default_name) v') v) t
           = (Inr (pe @ [CHR 0x0A] @ base_name v @ '' := '' @ ee @ '';'' @ [CHR 0x0A]
                   @ ''Inc_Ref ('' @ base_name v @ '');'' @ [CHR 0x0A]
                   @ [CHR 0x0A] @ base_name v' @ '' := '' @ base_name v @ '';'' @ [CHR 0x0A]
                   @ ''Inc_Ref ('' @ base_name v' @ '');'' @ [CHR 0x0A]), t2)))"
proof -
  let ?env = "VariableExpr LexicalEnvType default_name"
  have a: "\<forall>err s1. construct E (Some LexicalEnvType) s = (Inl err, s1) \<longrightarrow>
      eval_in_env E X s = (Inl err, s1)"
    by (simp add: eval_in_env_def and_then_def)
  have b1: "has_ambient_env (s1\<lparr>is_bound := True\<rparr>)" for s1
    by (simp add: has_ambient_env_def)
  have b2: "eval_in_env E X s = (Inl err, s2)"
    if "construct E (Some LexicalEnvType) s = (Inr e, s1)"
      and "construct X None (s1\<lparr>is_bound := True\<rparr>) = (Inl err, s2)" for e s1 err s2
    using that by (simp add: eval_in_env_def and_then_def EnvVariable_bind_def)
  have b4: "eval_in_env E Env s =
        (Inr (EnvBindExpr e ?env
                (Name (''New_Env_'' @ str_of_nat (length (vars (current_property s1)))))),
         s1\<lparr>current_property := (current_property s1)
               \<lparr>vars := vars (current_property s1)
                  @ [(Name (''New_Env_'' @ str_of_nat (length (vars (current_property s1)))),
                      LexicalEnvType)]\<rparr>\<rparr>)"
    if E: "construct E (Some LexicalEnvType) s = (Inr e, s1)" for e s1
    using eval_in_env_run [OF E construct_Env [OF b1]] by simp
  have c: "restores_operand E \<and> restores_operand X \<longrightarrow> restores (eval_in_env E X)"
    by (simp add: restores_eval_in_env)
  have d: "render_expr be (EnvBindExpr e x v) t =
     (fst (render_expr be x (t\<lparr>var_name := v\<rparr>)),
      (snd (render_expr be x (t\<lparr>var_name := v\<rparr>)))\<lparr>var_name := var_name t\<rparr>)"
    for e x v t
    by (simp add: EnvBindExpr_render_expr_run)
  have p: "render_pre bp be (EnvBindExpr e x v) t =
        (Inr (pe @ [CHR 0x0A] @ base_name v @ '' := '' @ ee @ '';'' @ [CHR 0x0A]
              @ ''Inc_Ref ('' @ base_name v @ '');'' @ [CHR 0x0A] @ px),
         t3\<lparr>var_name := var_name t2\<rparr>)"
    if "render_pre bp be e t = (Inr pe, t1)" "render_expr be e t1 = (Inr ee, t2)"
      "render_pre bp be x (t2\<lparr>var_name := v\<rparr>) = (Inr px, t3)" for e x v t pe t1 ee t2 px t3
    using that by (simp add: EnvBindExpr_render_pre_run)
  have r: "render_expr be (EnvBindExpr e ?env v) t = (Inr (base_name v), t) \<and>
      render_expr be (EnvBindExpr e (EnvBindExpr e' ?env v') v) t = (Inr (base_name v'), t) \<and>
      render_pre bp be (EnvBindExpr ?env ?env v) t
        = (Inr ([CHR 0x0A] @ base_name v @ '' := '' @ base_name (var_name t) @ '';'' @ [CHR 0x0A]
                @ ''Inc_Ref ('' @ base_name v @ '');'' @ [CHR 0x0A]), t) \<and>
      (\<forall>pe t1 ee t2.
         render_pre bp be e t = (Inr pe, t1) \<and> render_expr be e t1 = (Inr ee, t2) \<longrightarrow>
         render_pre bp be (EnvBindExpr e (EnvBindExpr ?env ?env v') v) t
           = (Inr (pe @ [CHR 0x0A] @ base_name v @ '' := '' @ ee @ '';'' @ [CHR 0x0A]
                   @ ''Inc_Ref ('' @ base_name v @ '');'' @ [CHR 0x0A]
                   @ [CHR 0x0A] @ base_name v' @ '' := '' @ base_name v @ '';'' @ [CHR 0x0A]
                   @ ''Inc_Ref ('' @ base_name v' @ '');'' @ [CHR 0x0A]), t2))"
    if be: "be ?env = Env_render_expr" and bp: "bp ?env = returns []"
  proof -
    have env_expr: "render_expr be ?env u = (Inr (base_name (var_name u)), u)" for u
      by (simp add: be Env_render_expr_def)
    have env_pre: "render_pre bp be ?env u = (Inr [], u)" for u
      by (simp add: bp returns_def)
    have r1: "render_expr be (EnvBindExpr e ?env v) u = (Inr (base_name v), u)" for e v u
      by (subst d) (simp add: be Env_render_expr_def)
    have r2: "render_expr be (EnvBindExpr e (EnvBindExpr e' ?env v') v) t = (Inr (base_name v'), t)"
      by (subst d) (simp only: r1 fst_conv snd_conv, simp)
    have r3: "render_pre bp be (EnvBindExpr ?env ?env w) u
        = (Inr ([CHR 0x0A] @ base_name w @ '' := '' @ base_name (var_name u) @ '';'' @ [CHR 0x0A]
                @ ''Inc_Ref ('' @ base_name w @ '');'' @ [CHR 0x0A]), u)" for w u
      using p [where e = ?env and x = ?env and v = w and t = u, OF env_pre env_expr env_pre]
      by simp
    have r4: "render_pre bp be (EnvBindExpr e (EnvBindExpr ?env ?env v') v) t
           = (Inr (pe @ [CHR 0x0A] @ base_name v @ '' := '' @ ee @ '';'' @ [CHR 0x0A]
                   @ ''Inc_Ref ('' @ base_name v @ '');'' @ [CHR 0x0A]
                   @ [CHR 0x0A] @ base_name v' @ '' := '' @ base_name v @ '';'' @ [CHR 0x0A]
                   @ ''Inc_Ref ('' @ base_name v' @ '');'' @ [CHR 0x0A]), t2)"
      if "render_pre bp be e t = (Inr pe, t1)" "render_expr be e t1 = (Inr ee, t2)" for pe t1 ee t2
      using p [where e = e and x = "EnvBindExpr ?env ?env v'" and v = v and t = t,
               OF that r3 [of v' "t2\<lparr>var_name := v\<rparr>"]]
      by simp
    from r1 r2 r3 r4 show ?thesis by blast
  qed
  have b: "\<forall>e s1. construct E (Some LexicalEnvType) s = (Inr e, s1) \<longrightarrow>
      has_ambient_env (s1\<lparr>is_bound := True\<rparr>) \<and>
      (\<forall>err s2. construct X None (s1\<lparr>is_bound := True\<rparr>) = (Inl err, s2) \<longrightarrow>
         eval_in_env E X s = (Inl err, s2)) \<and>
      (\<forall>x s2. construct X None (s1\<lparr>is_bound := True\<rparr>) = (Inr x, s2) \<longrightarrow>
         eval_in_env E X s =
           (Inr (EnvBindExpr e x
                   (Name (''New_Env_'' @ str_of_nat (length (vars (current_property s2)))))),
            s2\<lparr>is_bound := is_bound s1,
               current_property := (current_property s2)
                 \<lparr>vars := vars (current_property s2)
                    @ [(Name (''New_Env_'' @ str_of_nat (length (vars (current_property s2)))),
                        LexicalEnvType)]\<rparr>\<rparr>)) \<and>
      eval_in_env E Env s =
        (Inr (EnvBindExpr e ?env
                (Name (''New_Env_'' @ str_of_nat (length (vars (current_property s1)))))),
         s1\<lparr>current_property := (current_property s1)
               \<lparr>vars := vars (current_property s1)
                  @ [(Name (''New_Env_'' @ str_of_nat (length (vars (current_property s1)))),
                      LexicalEnvType)]\<rparr>\<rparr>)"
  proof (intro allI impI conjI)
    fix e s1
    assume E: "construct E (Some LexicalEnvType) s = (Inr e, s1)"
    show "has_ambient_env (s1\<lparr>is_bound := True\<rparr>)"
      by (rule b1)
    show "eval_in_env E Env s =
        (Inr (EnvBindExpr e ?env
                (Name (''New_Env_'' @ str_of_nat (length (vars (current_property s1)))))),
         s1\<lparr>current_property := (current_property s1)
               \<lparr>vars := vars (current_property s1)
                  @ [(Name (''New_Env_'' @ str_of_nat (length (vars (current_property s1)))),
                      LexicalEnvType)]\<rparr>\<rparr>)"
      using E by (rule b4)
  next
    fix e s1 err s2
    assume "construct E (Some LexicalEnvType) s = (Inr e, s1)"
      and "construct X None (s1\<lparr>is_bound := True\<rparr>) = (Inl err, s2)"
    then show "eval_in_env E X s = (Inl err, s2)"
      by (rule b2)
  next
    fix e s1 x s2
    assume "construct E (Some LexicalEnvType) s = (Inr e, s1)"
      and "construct X None (s1\<lparr>is_bound := True\<rparr>) = (Inr x, s2)"
    then show "eval_in_env E X s =
           (Inr (EnvBindExpr e x
                   (Name (''New_Env_'' @ str_of_nat (length (vars (current_property s2)))))),
            s2\<lparr>is_bound := is_bound s1,
               current_property := (current_property s2)
                 \<lparr>vars := vars (current_property s2)
                    @ [(Name (''New_Env_'' @ str_of_nat (length (vars (current_property s2)))),
                        LexicalEnvType)]\<rparr>\<rparr>)"
      by (rule eval_in_env_run)
  qed
  have q: "\<forall>pe t1 ee t2 px t3.
      render_pre bp be e t = (Inr pe, t1) \<and> render_expr be e t1 = (Inr ee, t2) \<and>
      render_pre bp be x (t2\<lparr>var_name := v\<rparr>) = (Inr px, t3) \<longrightarrow>
      render_pre bp be (EnvBindExpr e x v) t =
        (Inr (pe @ [CHR 0x0A] @ base_name v @ '' := '' @ ee @ '';'' @ [CHR 0x0A]
              @ ''Inc_Ref ('' @ base_name v @ '');'' @ [CHR 0x0A] @ px),
         t3\<lparr>var_name := var_name t2\<rparr>)"
    using p by blast
  have r': "be ?env = Env_render_expr \<and> bp ?env = returns [] \<longrightarrow>
      render_expr be (EnvBindExpr e ?env v) t = (Inr (base_name v), t) \<and>
      render_expr be (EnvBindExpr e (EnvBindExpr e' ?env v') v) t = (Inr (base_name v'), t) \<and>
      render_pre bp be (EnvBindExpr ?env ?env v) t
        = (Inr ([CHR 0x0A] @ base_name v @ '' := '' @ base_name (var_name t) @ '';'' @ [CHR 0x0A]
                @ ''Inc_Ref ('' @ base_name v @ '');'' @ [CHR 0x0A]), t) \<and>
      (\<forall>pe t1 ee t2.
         render_pre bp be e t = (Inr pe, t1) \<and> render_expr be e t1 = (Inr ee, t2) \<longrightarrow>
         render_pre bp be (EnvBindExpr e (EnvBindExpr ?env ?env v') v) t
           = (Inr (pe @ [CHR 0x0A] @ base_name v @ '' := '' @ ee @ '';'' @ [CHR 0x0A]
                   @ ''Inc_Ref ('' @ base_name v @ '');'' @ [CHR 0x0A]
                   @ [CHR 0x0A] @ base_name v' @ '' := '' @ base_name v @ '';'' @ [CHR 0x0A]
                   @ ''Inc_Ref ('' @ base_name v' @ '');'' @ [CHR 0x0A]), t2))"
    using r by (intro impI) (elim conjE)
  note d' = d [of e x v t]
  show ?thesis
    by (rule conjI [OF a conjI [OF b conjI [OF c conjI [OF d' conjI [OF q r']]]]])
qed

theorem eval_in_env_scoping_witness:
  "eval_in_env Env Env
     \<lparr>is_bound = False, var_name = Name ''Current_Env'',
       current_property = \<lparr>has_implicit_env = False, vars = []\<rparr>\<rparr>
   = (Inl (Diagnostic (''This property has no implicit environment parameter: please use''
                       @ '' the eval_in_env construct to bind an environment first.'')),
      \<lparr>is_bound = False, var_name = Name ''Current_Env'',
        current_property = \<lparr>has_implicit_env = False, vars = []\<rparr>\<rparr>) \<and>
   eval_in_env EmptyEnv (AbstractExpression (eval_in_env Env Env))
     \<lparr>is_bound = False, var_name = Name ''Current_Env'',
       current_property = \<lparr>has_implicit_env = False, vars = []\<rparr>\<rparr>
   = (Inr (EnvBindExpr
            (VariableExpr LexicalEnvType (Name ''AST_Envs.Empty_Env''))
            (EnvBindExpr (VariableExpr LexicalEnvType (Name ''Current_Env''))
               (VariableExpr LexicalEnvType (Name ''Current_Env''))
               (Name ''New_Env_0''))
            (Name ''New_Env_1'')),
      \<lparr>is_bound = False, var_name = Name ''Current_Env'',
        current_property =
          \<lparr>has_implicit_env = False,
            vars = [(Name ''New_Env_0'', LexicalEnvType), (Name ''New_Env_1'', LexicalEnvType)]\<rparr>\<rparr>) \<and>
   restores (eval_in_env EmptyEnv (AbstractExpression (eval_in_env Env Env))) \<and>
   render_pre AbstractVariable_render_pre AbstractVariable_render_expr
     (EnvBindExpr
        (VariableExpr LexicalEnvType (Name ''AST_Envs.Empty_Env''))
        (EnvBindExpr (VariableExpr LexicalEnvType (Name ''Current_Env''))
           (VariableExpr LexicalEnvType (Name ''Current_Env''))
           (Name ''New_Env_0''))
        (Name ''New_Env_1''))
     \<lparr>is_bound = False, var_name = Name ''Current_Env'',
       current_property = \<lparr>has_implicit_env = False, vars = []\<rparr>\<rparr>
   = (Inr ([CHR 0x0A] @ ''New_Env_1 := AST_Envs.Empty_Env;'' @ [CHR 0x0A]
           @ ''Inc_Ref (New_Env_1);'' @ [CHR 0x0A]
           @ [CHR 0x0A] @ ''New_Env_0 := New_Env_1;'' @ [CHR 0x0A]
           @ ''Inc_Ref (New_Env_0);'' @ [CHR 0x0A]),
      \<lparr>is_bound = False, var_name = Name ''Current_Env'',
        current_property = \<lparr>has_implicit_env = False, vars = []\<rparr>\<rparr>) \<and>
   render_expr AbstractVariable_render_expr
     (EnvBindExpr
        (VariableExpr LexicalEnvType (Name ''AST_Envs.Empty_Env''))
        (EnvBindExpr (VariableExpr LexicalEnvType (Name ''Current_Env''))
           (VariableExpr LexicalEnvType (Name ''Current_Env''))
           (Name ''New_Env_0''))
        (Name ''New_Env_1''))
     \<lparr>is_bound = False, var_name = Name ''Current_Env'',
       current_property = \<lparr>has_implicit_env = False, vars = []\<rparr>\<rparr>
   = (Inr ''New_Env_0'',
      \<lparr>is_bound = False, var_name = Name ''Current_Env'',
        current_property = \<lparr>has_implicit_env = False, vars = []\<rparr>\<rparr>)"
proof -
  let ?s0 = "\<lparr>is_bound = False, var_name = Name ''Current_Env'',
              current_property = \<lparr>has_implicit_env = False, vars = []\<rparr>\<rparr>"
  let ?inner = "AbstractExpression (eval_in_env Env Env)"
  let ?empty = "VariableExpr LexicalEnvType (Name ''AST_Envs.Empty_Env'')"
  let ?env = "VariableExpr LexicalEnvType default_name"
  have env_fails: "construct Env (Some LexicalEnvType) ?s0
      = (Inl (Diagnostic (''This property has no implicit environment parameter: please use''
                          @ '' the eval_in_env construct to bind an environment first.'')), ?s0)"
    by (simp add: construct_def Env_def EnvVariable_construct_def and_then_def
          check_source_language_def has_ambient_env_def raises_def)
  from eval_in_env_scoping [where E = Env and X = Env and s = ?s0, THEN conjunct1] env_fails
  have outer_state: "eval_in_env Env Env ?s0
      = (Inl (Diagnostic (''This property has no implicit environment parameter: please use''
                          @ '' the eval_in_env construct to bind an environment first.'')), ?s0)"
    by blast
  have nested: "eval_in_env EmptyEnv ?inner ?s0
      = (Inr (EnvBindExpr ?empty
            (EnvBindExpr (VariableExpr LexicalEnvType (Name ''Current_Env''))
               (VariableExpr LexicalEnvType (Name ''Current_Env''))
               (Name ''New_Env_0''))
            (Name ''New_Env_1'')),
         \<lparr>is_bound = False, var_name = Name ''Current_Env'',
           current_property =
             \<lparr>has_implicit_env = False,
               vars = [(Name ''New_Env_0'', LexicalEnvType), (Name ''New_Env_1'', LexicalEnvType)]\<rparr>\<rparr>)"
    by (simp add: eval_in_env_def construct_def Env_def EmptyEnv_def EnvVariable_construct_def
          AbstractVariable_construct_def and_then_def check_source_language_def
          has_ambient_env_def returns_def EnvVariable_bind_def EnvBindExpr_init_def
          vars_create_def Let_def default_name_def str_of_nat_0 str_of_nat_1)
  have "restores_operand ?inner"
    using restores_eval_in_env [OF restores_operand_Env restores_operand_Env]
    by (simp add: restores_operand_def)
  with eval_in_env_scoping [where E = EmptyEnv and X = ?inner,
         THEN conjunct2, THEN conjunct2, THEN conjunct1] restores_operand_EmptyEnv
  have balanced: "restores (eval_in_env EmptyEnv ?inner)"
    by blast
  note rendering = eval_in_env_scoping
    [where E = EmptyEnv and X = Env and s = ?s0 and t = ?s0
       and be = AbstractVariable_render_expr and bp = AbstractVariable_render_pre
       and e = ?empty and e' = ?env
       and v = "Name ''New_Env_1''" and v' = "Name ''New_Env_0''",
     THEN conjunct2, THEN conjunct2, THEN conjunct2, THEN conjunct2, THEN conjunct2]
  have base: "AbstractVariable_render_expr ?env = Env_render_expr \<and>
      AbstractVariable_render_pre ?env = returns []"
    by (simp add: AbstractVariable_render_expr_def AbstractVariable_render_pre_def)
  have empty: "render_pre AbstractVariable_render_pre AbstractVariable_render_expr ?empty ?s0
        = (Inr [], ?s0) \<and>
      render_expr AbstractVariable_render_expr ?empty ?s0 = (Inr ''AST_Envs.Empty_Env'', ?s0)"
    by (simp add: AbstractVariable_render_expr_def AbstractVariable_render_pre_def
          returns_def default_name_def)
  from rendering base
  have expr: "render_expr AbstractVariable_render_expr
      (EnvBindExpr ?empty (EnvBindExpr ?env ?env (Name ''New_Env_0'')) (Name ''New_Env_1'')) ?s0
      = (Inr (base_name (Name ''New_Env_0'')), ?s0)"
    by blast
  from rendering base empty
  have pre: "render_pre AbstractVariable_render_pre AbstractVariable_render_expr
      (EnvBindExpr ?empty (EnvBindExpr ?env ?env (Name ''New_Env_0'')) (Name ''New_Env_1'')) ?s0
      = (Inr ([] @ [CHR 0x0A] @ base_name (Name ''New_Env_1'') @ '' := '' @ ''AST_Envs.Empty_Env''
              @ '';'' @ [CHR 0x0A]
              @ ''Inc_Ref ('' @ base_name (Name ''New_Env_1'') @ '');'' @ [CHR 0x0A]
              @ [CHR 0x0A] @ base_name (Name ''New_Env_0'') @ '' := '' @ base_name (Name ''New_Env_1'')
              @ '';'' @ [CHR 0x0A]
              @ ''Inc_Ref ('' @ base_name (Name ''New_Env_0'') @ '');'' @ [CHR 0x0A]), ?s0)"
    by blast
  from outer_state nested balanced expr pre show ?thesis
    by (simp add: default_name_def)
qed

section \<open>Properties of the lexer specification\<close>

subsection \<open>Case rules\<close>






lemma str_of_nat_3: "str_of_nat 3 = ''3''"
  by code_simp





subsection \<open>Adding rules\<close>

lemma add_rules_stops_at_failed_assert:
  "\<exists>e \<in> set rs. fails_assert e \<Longrightarrow> \<exists>lx'. add_rules rs lx = (Inl (AssertionError []), lx')"
  by (induction rs lx rule: add_rules.induct) auto

lemma add_rules_success:
  "add_rules rs lx = (Inr u, lx') \<Longrightarrow>
   lx' = fold append_rule (concat (map entry_rule rs)) lx"
  by (induction rs lx rule: add_rules.induct) auto

lemma rules_append_rule: "rules (append_rule r lx) = rules lx @ [r]"
  by (auto simp: append_rule_def Let_def split: py_obj.splits matcher.splits)

lemma rules_fold_append_rule: "rules (fold append_rule new lx) = rules lx @ new"
  by (induction new arbitrary: lx) (auto simp: rules_append_rule)

lemma patterns_list_append_rule: "patterns_list (append_rule r lx) = patterns_list lx"
  by (auto simp: append_rule_def Let_def split: py_obj.splits matcher.splits)

lemma patterns_list_fold_append_rule: "patterns_list (fold append_rule new lx) = patterns_list lx"
  by (induction new arbitrary: lx) (auto simp: patterns_list_append_rule)

lemma tokens_set_append_rule: "tokens_set (append_rule r lx) = tokens_set lx"
  by (auto simp: append_rule_def Let_def split: py_obj.splits matcher.splits)

lemma tokens_set_fold_append_rule: "tokens_set (fold append_rule new lx) = tokens_set lx"
  by (induction new arbitrary: lx) (auto simp: tokens_set_append_rule)

lemma literals_map_append_rule:
  "literals_map (append_rule r lx) x =
     (if is_literal_rule x r then Some (action r) else literals_map lx x)"
  by (auto simp: append_rule_def is_literal_rule_def Let_def split: py_obj.splits matcher.splits)

lemma literals_map_fold_no_literal:
  "\<forall>r \<in> set new. \<not> is_literal_rule x r \<Longrightarrow>
   literals_map (fold append_rule new lx) x = literals_map lx x"
  by (induction new arbitrary: lx) (auto simp: literals_map_append_rule)

lemma add_rules_failed_assert:
  "fails_assert bad \<Longrightarrow> add_rules (bad # rest) lx = (Inl (AssertionError []), lx)"
  by (cases bad rule: fails_assert.cases) simp_all

lemma add_rules_accepted_prefix:
  "\<forall>e \<in> set good. \<not> fails_assert e \<Longrightarrow>
   add_rules (good @ rest) lx = add_rules rest (fold append_rule (concat (map entry_rule good)) lx)"
proof (induction good arbitrary: lx)
  case Nil
  then show ?case by simp
next
  case (Cons g good)
  from Cons.prems have g: "\<not> fails_assert g" and good: "\<forall>e \<in> set good. \<not> fails_assert e"
    by simp_all
  from g have "add_rules ((g # good) @ rest) lx =
      add_rules (good @ rest) (fold append_rule (entry_rule g) lx)"
    by (cases g rule: fails_assert.cases) simp_all
  with Cons.IH [OF good] show ?case
    by simp
qed

text \<open>
  C6, as the code has it. \<^verbatim>\<open>add_rules\<close> rejects an entry that is a tuple of
  a length other than two, or that is neither a tuple nor a rule association,
  by a failed \<^verbatim>\<open>assert\<close>: the call stops with an \<^verbatim>\<open>AssertionError\<close>, which
  is not a diagnostic, and nothing is undone: the lexer is left with the rules
  of the entries before the rejected one appended, and with their literals
  recorded. A call without such an entry appends the rules of all its
  entries. The two elements of a pair are not looked at: a pair of any two
  values is appended as a rule.
\<close>

theorem add_rules_rejects_by_assertion:
  "((\<forall>e \<in> set good. \<not> fails_assert e) \<and> fails_assert bad \<longrightarrow>
      add_rules (good @ bad # rest) lx =
        (Inl (AssertionError []), fold append_rule (concat (map entry_rule good)) lx) \<and>
      rules (snd (add_rules (good @ bad # rest) lx)) = rules lx @ concat (map entry_rule good)) \<and>
   ((\<forall>e \<in> set rs. \<not> fails_assert e) \<longrightarrow>
      add_rules rs lx = (Inr (), fold append_rule (concat (map entry_rule rs)) lx)) \<and>
   ((\<exists>e \<in> set rs. fails_assert e) \<longrightarrow>
      (\<exists>lx'. add_rules rs lx = (Inl (AssertionError []), lx'))) \<and>
   (length elems \<noteq> 2 \<longrightarrow> add_rules (Tuple elems # rest) lx = (Inl (AssertionError []), lx)) \<and>
   add_rules (OtherEntry r # rest) lx = (Inl (AssertionError []), lx) \<and>
   \<not> is_diagnostic (AssertionError []) \<and>
   add_rules [Tuple [x, y]] lx = (Inr (), append_rule \<lparr>matcher = x, action = y\<rparr> lx)"
proof -
  have stops: "add_rules (good @ bad # rest) lx =
        (Inl (AssertionError []), fold append_rule (concat (map entry_rule good)) lx) \<and>
      rules (snd (add_rules (good @ bad # rest) lx)) = rules lx @ concat (map entry_rule good)"
    if "\<forall>e \<in> set good. \<not> fails_assert e" and "fails_assert bad"
    using that
    by (simp add: add_rules_accepted_prefix add_rules_failed_assert rules_fold_append_rule)
  have all_good: "add_rules rs lx = (Inr (), fold append_rule (concat (map entry_rule rs)) lx)"
    if "\<forall>e \<in> set rs. \<not> fails_assert e"
    using add_rules_accepted_prefix [OF that, of "[]" lx] by simp
  have short: "length elems \<noteq> 2 \<longrightarrow> add_rules (Tuple elems # rest) lx = (Inl (AssertionError []), lx)"
  proof
    assume "length elems \<noteq> 2"
    then have "fails_assert (Tuple elems)"
      by (cases "Tuple elems" rule: fails_assert.cases) simp_all
    then show "add_rules (Tuple elems # rest) lx = (Inl (AssertionError []), lx)"
      by (rule add_rules_failed_assert)
  qed
  from stops all_good short show ?thesis
    using add_rules_stops_at_failed_assert [of rs lx] by (simp add: rules_fold_append_rule)
qed

subsection \<open>The rules of a new lexer\<close>

lemma LexerToken_class_eq:
  "LexerToken_class =
     ([(''Termination'', TokenActionMember \<lparr>index = 0, name = None, action_class = WithText,
          start_ignore_layout = False, end_ignore_layout = False\<rparr>),
       (''LexingFailure'', TokenActionMember \<lparr>index = 1, name = None, action_class = WithText,
          start_ignore_layout = False, end_ignore_layout = False\<rparr>)], 2)"
  by (simp add: LexerToken_class_def TokenAction_init_def numeral_2_eq_2)

lemma getattr_tokens_append:
  "getattr_tokens (ds @ [b]) attr =
     (case getattr_tokens ds attr of Some v \<Rightarrow> Some v | None \<Rightarrow> map_of b attr)"
  by (induction ds) (auto split: option.splits)

lemma map_of_set_name:
  "map_of (map (set_name fc) d) attr = map_option (\<lambda>v. snd (set_name fc (attr, v))) (map_of d attr)"
  by (induction d) (auto simp: set_name_def split: class_member.splits)

lemma getattr_tokens_set_name:
  "getattr_tokens (map (map (set_name fc)) ds) attr =
     map_option (\<lambda>v. snd (set_name fc (attr, v))) (getattr_tokens ds attr)"
  by (induction ds) (auto simp: map_of_set_name split: option.splits)

lemma getattr_tokens_setattr_class:
  "getattr_tokens (fst (setattr_class k v c) @ [snd (setattr_class k v c)]) attr =
     (if attr = k then Some v else getattr_tokens (fst c @ [snd c]) attr)"
  by (cases c; cases "fst c")
     (auto simp: setattr_class_def update_conv' split: option.splits)

lemma getattr_tokens_no_override:
  "\<forall>d \<in> set ds. map_of d attr = None \<Longrightarrow> getattr_tokens ds attr = None"
  by (induction ds) auto

lemma LexerToken_init_mro_track:
  "mro (fst (LexerToken_init fc items cls True counter)) =
     map (map (set_name fc))
       (fst (setattr_class ''Newline''
               (TokenActionMember \<lparr>index = counter + 2, name = None, action_class = WithText,
                  start_ignore_layout = False, end_ignore_layout = False\<rparr>)
               (setattr_class ''Dedent''
                  (TokenActionMember \<lparr>index = counter + 1, name = None, action_class = WithText,
                     start_ignore_layout = False, end_ignore_layout = False\<rparr>)
                  (setattr_class ''Indent''
                     (TokenActionMember \<lparr>index = counter, name = None, action_class = WithText,
                        start_ignore_layout = False, end_ignore_layout = False\<rparr>)
                     (cls, fst LexerToken_class))))
        @ [snd (setattr_class ''Newline''
               (TokenActionMember \<lparr>index = counter + 2, name = None, action_class = WithText,
                  start_ignore_layout = False, end_ignore_layout = False\<rparr>)
               (setattr_class ''Dedent''
                  (TokenActionMember \<lparr>index = counter + 1, name = None, action_class = WithText,
                     start_ignore_layout = False, end_ignore_layout = False\<rparr>)
                  (setattr_class ''Indent''
                     (TokenActionMember \<lparr>index = counter, name = None, action_class = WithText,
                        start_ignore_layout = False, end_ignore_layout = False\<rparr>)
                     (cls, fst LexerToken_class))))])"
  by (simp add: LexerToken_init_def TokenAction_init_def Let_def)

lemma LexerToken_init_mro_plain:
  "mro (fst (LexerToken_init fc items cls False counter)) =
     map (map (set_name fc)) (cls @ [fst LexerToken_class])"
  by (simp add: LexerToken_init_def Let_def)

lemma LexerToken_init_counter:
  "snd (LexerToken_init fc items cls track counter) = (if track then counter + 3 else counter)"
  by (simp add: LexerToken_init_def TokenAction_init_def Let_def)

lemma getattr_builtin:
  assumes "attr = ''Termination'' \<or> attr = ''LexingFailure''"
  shows "getattr_tokens (mro (fst (LexerToken_init fc items cls track counter))) attr =
     map_option (\<lambda>v. snd (set_name fc (attr, v)))
       (case getattr_tokens cls attr of
          Some v \<Rightarrow> Some v
        | None \<Rightarrow> map_of (fst LexerToken_class) attr)"
proof -
  have "getattr_tokens (mro (fst (LexerToken_init fc items cls track counter))) attr =
      map_option (\<lambda>v. snd (set_name fc (attr, v))) (getattr_tokens (cls @ [fst LexerToken_class]) attr)"
  proof (cases track)
    case True
    have "getattr_tokens (mro (fst (LexerToken_init fc items cls True counter))) attr =
      map_option (\<lambda>v. snd (set_name fc (attr, v))) (getattr_tokens (cls @ [fst LexerToken_class]) attr)"
      unfolding LexerToken_init_mro_track getattr_tokens_set_name getattr_tokens_setattr_class
      using assms by auto
    with True show ?thesis by simp
  next
    case False
    have "getattr_tokens (mro (fst (LexerToken_init fc items cls False counter))) attr =
      map_option (\<lambda>v. snd (set_name fc (attr, v))) (getattr_tokens (cls @ [fst LexerToken_class]) attr)"
      unfolding LexerToken_init_mro_plain getattr_tokens_set_name by simp
    with False show ?thesis by simp
  qed
  then show ?thesis
    by (simp add: getattr_tokens_append)
qed

lemma getattr_Newline:
  "getattr_tokens (mro (fst (LexerToken_init fc items cls True counter))) ''Newline'' =
     Some (TokenActionMember \<lparr>index = counter + 2, name = Some (fc ''Newline''), action_class = WithText,
             start_ignore_layout = False, end_ignore_layout = False\<rparr>)"
  unfolding LexerToken_init_mro_track getattr_tokens_set_name getattr_tokens_setattr_class
  by (simp add: set_name_def)

lemma Lexer_init_rules:
  assumes "getattr_tokens (mro (fst (LexerToken_init fc items cls track counter))) ''Termination'' = Some t"
    and "getattr_tokens (mro (fst (LexerToken_init fc items cls track counter))) ''LexingFailure'' = Some f"
    and "track \<longrightarrow>
         getattr_tokens (mro (fst (LexerToken_init fc items cls track counter))) ''Newline'' = Some nl"
  shows "\<exists>lx. Lexer_init fc items cls track counter = (Inr lx, if track then counter + 3 else counter) \<and>
           tokens lx = fst (LexerToken_init fc items cls track counter) \<and>
           patterns_list lx = [] \<and>
           rules lx =
             [\<lparr>matcher = MatcherObj Eof, action = member_obj t\<rparr>,
              \<lparr>matcher = MatcherObj Failure, action = member_obj f\<rparr>]
             @ (if track
                then [\<lparr>matcher = MatcherObj (Literal [CHR 0x5C, CHR ''n'']), action = member_obj nl\<rparr>]
                else [])"
proof -
  obtain toks c' where init: "LexerToken_init fc items cls track counter = (toks, c')"
    by (cases "LexerToken_init fc items cls track counter")
  with LexerToken_init_counter [of fc items cls track counter]
  have c': "c' = (if track then counter + 3 else counter)"
    by simp
  from assms init show ?thesis
    by (cases track)
       (simp_all add: Lexer_init_def getattr_rule_def append_rule_def Let_def c')
qed

lemma patterns_list_add_patterns:
  "patterns_list (add_patterns ps lx) = patterns_list lx @ map (\<lambda>(k, v). PredefPattern k v) ps"
  by (induction ps arbitrary: lx) auto

lemma rules_add_patterns: "rules (add_patterns ps lx) = rules lx"
  by (induction ps arbitrary: lx) auto

text \<open>
  C9. A new lexer has no patterns and exactly the implicit rules, in this
  order: the end-of-input matcher with the catalog's \<^verbatim>\<open>Termination\<close>, the
  failure matcher with its \<^verbatim>\<open>LexingFailure\<close> and, when indentation is
  tracked, the literal \<^verbatim>\<open>\n\<close> with its \<^verbatim>\<open>Newline\<close>; for a token class that
  does not redefine the built-in members these are the actions of values 0
  and 1, and \<^verbatim>\<open>Newline\<close> is the third action made for this lexer. A call of
  \<^verbatim>\<open>add_rules\<close> that returns has appended its rules, in the order of its
  arguments, after the rules that were there, and \<^verbatim>\<open>add_patterns\<close> appends
  its patterns in the order of its arguments.
\<close>

theorem lexer_rules_in_order:
  "(\<exists>lx. Lexer_init fc items cls track counter = (Inr lx, if track then counter + 3 else counter) \<and>
      patterns_list lx = [] \<and>
      map (\<lambda>r. (matcher r, Some (action r))) (rules lx) =
        map (\<lambda>(m, attr). (MatcherObj m, map_option member_obj (getattr_tokens (mro (tokens lx)) attr)))
          ([(Eof, ''Termination''), (Failure, ''LexingFailure'')]
           @ (if track then [(Literal [CHR 0x5C, CHR ''n''], ''Newline'')] else [])) \<and>
      ((\<forall>d \<in> set cls. map_of d ''Termination'' = None \<and> map_of d ''LexingFailure'' = None) \<longrightarrow>
         rules lx =
           [\<lparr>matcher = MatcherObj Eof,
             action = ActionObj (TokenAction \<lparr>index = 0, name = Some (fc ''Termination''),
               action_class = WithText, start_ignore_layout = False, end_ignore_layout = False\<rparr>)\<rparr>,
            \<lparr>matcher = MatcherObj Failure,
             action = ActionObj (TokenAction \<lparr>index = 1, name = Some (fc ''LexingFailure''),
               action_class = WithText, start_ignore_layout = False, end_ignore_layout = False\<rparr>)\<rparr>]
           @ (if track
              then [\<lparr>matcher = MatcherObj (Literal [CHR 0x5C, CHR ''n'']),
                     action = ActionObj (TokenAction \<lparr>index = counter + 2, name = Some (fc ''Newline''),
                       action_class = WithText, start_ignore_layout = False,
                       end_ignore_layout = False\<rparr>)\<rparr>]
              else []))) \<and>
   (add_rules rs lx1 = (Inr (), lx2) \<longrightarrow>
      rules lx2 = rules lx1 @ concat (map entry_rule rs) \<and> patterns_list lx2 = patterns_list lx1) \<and>
   patterns_list (add_patterns ps lx1) = patterns_list lx1 @ map (\<lambda>(k, v). PredefPattern k v) ps \<and>
   rules (add_patterns ps lx1) = rules lx1"
proof -
  let ?toks = "fst (LexerToken_init fc items cls track counter)"
  let ?nl = "TokenActionMember \<lparr>index = counter + 2, name = Some (fc ''Newline''),
               action_class = WithText, start_ignore_layout = False, end_ignore_layout = False\<rparr>"
  obtain t where t: "getattr_tokens (mro ?toks) ''Termination'' = Some t"
    by (cases "getattr_tokens cls ''Termination''")
       (simp_all add: getattr_builtin LexerToken_class_eq)
  obtain f where f: "getattr_tokens (mro ?toks) ''LexingFailure'' = Some f"
    by (cases "getattr_tokens cls ''LexingFailure''")
       (simp_all add: getattr_builtin LexerToken_class_eq)
  have nl: "track \<longrightarrow> getattr_tokens (mro ?toks) ''Newline'' = Some ?nl"
    using getattr_Newline by auto
  from Lexer_init_rules [OF t f nl]
  obtain lx where lx: "Lexer_init fc items cls track counter = (Inr lx, if track then counter + 3 else counter)"
    and toks: "tokens lx = ?toks"
    and pats: "patterns_list lx = []"
    and rls: "rules lx =
             [\<lparr>matcher = MatcherObj Eof, action = member_obj t\<rparr>,
              \<lparr>matcher = MatcherObj Failure, action = member_obj f\<rparr>]
             @ (if track
                then [\<lparr>matcher = MatcherObj (Literal [CHR 0x5C, CHR ''n'']), action = member_obj ?nl\<rparr>]
                else [])"
    by blast
  have attrs: "map (\<lambda>r. (matcher r, Some (action r))) (rules lx) =
        map (\<lambda>(m, attr). (MatcherObj m, map_option member_obj (getattr_tokens (mro (tokens lx)) attr)))
          ([(Eof, ''Termination''), (Failure, ''LexingFailure'')]
           @ (if track then [(Literal [CHR 0x5C, CHR ''n''], ''Newline'')] else []))"
    using nl by (simp add: rls toks t f)
  have builtin: "rules lx =
           [\<lparr>matcher = MatcherObj Eof,
             action = ActionObj (TokenAction \<lparr>index = 0, name = Some (fc ''Termination''),
               action_class = WithText, start_ignore_layout = False, end_ignore_layout = False\<rparr>)\<rparr>,
            \<lparr>matcher = MatcherObj Failure,
             action = ActionObj (TokenAction \<lparr>index = 1, name = Some (fc ''LexingFailure''),
               action_class = WithText, start_ignore_layout = False, end_ignore_layout = False\<rparr>)\<rparr>]
           @ (if track
              then [\<lparr>matcher = MatcherObj (Literal [CHR 0x5C, CHR ''n'']),
                     action = ActionObj (TokenAction \<lparr>index = counter + 2, name = Some (fc ''Newline''),
                       action_class = WithText, start_ignore_layout = False,
                       end_ignore_layout = False\<rparr>)\<rparr>]
              else [])"
    if plain: "\<forall>d \<in> set cls. map_of d ''Termination'' = None \<and> map_of d ''LexingFailure'' = None"
  proof -
    from plain have "getattr_tokens cls ''Termination'' = None" "getattr_tokens cls ''LexingFailure'' = None"
      by (simp_all add: getattr_tokens_no_override)
    with t f have "t = TokenActionMember \<lparr>index = 0, name = Some (fc ''Termination''),
               action_class = WithText, start_ignore_layout = False, end_ignore_layout = False\<rparr>"
      and "f = TokenActionMember \<lparr>index = 1, name = Some (fc ''LexingFailure''),
               action_class = WithText, start_ignore_layout = False, end_ignore_layout = False\<rparr>"
      by (simp_all add: getattr_builtin LexerToken_class_eq set_name_def)
    then show ?thesis
      by (simp add: rls member_obj_def)
  qed
  have added: "add_rules rs lx1 = (Inr (), lx2) \<longrightarrow>
      rules lx2 = rules lx1 @ concat (map entry_rule rs) \<and> patterns_list lx2 = patterns_list lx1"
  proof
    assume "add_rules rs lx1 = (Inr (), lx2)"
    then have "lx2 = fold append_rule (concat (map entry_rule rs)) lx1"
      by (rule add_rules_success)
    then show "rules lx2 = rules lx1 @ concat (map entry_rule rs) \<and> patterns_list lx2 = patterns_list lx1"
      by (simp add: rules_fold_append_rule patterns_list_fold_append_rule)
  qed
  from lx pats attrs builtin added show ?thesis
    by (simp add: patterns_list_add_patterns rules_add_patterns)
qed

lemma calculator_class:
  "\<exists>d. class_body calculator_tokens [] 2 = (d, 7) \<and>
       map_of d ''Termination'' = None \<and> map_of d ''LexingFailure'' = None"
  by (simp add: calculator_tokens_def TokenAction_init_def)

lemma calculator_lexer_facts:
  "\<exists>lx. calculator_lexer = (Inr lx, 7) \<and>
     tokens_set lx = {Name ''Plus'', Name ''Minus'', Name ''Times'', Name ''Div'', Name ''Number'',
                      Name ''Termination'', Name ''LexingFailure''} \<and>
     literals_map lx = Map.empty \<and>
     patterns_list lx = [] \<and>
     rules lx =
       [\<lparr>matcher = MatcherObj Eof,
         action = ActionObj (TokenAction \<lparr>index = 0, name = Some (Name ''Termination''),
           action_class = WithText, start_ignore_layout = False, end_ignore_layout = False\<rparr>)\<rparr>,
        \<lparr>matcher = MatcherObj Failure,
         action = ActionObj (TokenAction \<lparr>index = 1, name = Some (Name ''LexingFailure''),
           action_class = WithText, start_ignore_layout = False, end_ignore_layout = False\<rparr>)\<rparr>]"
  by (simp add: calculator_lexer_def calculator_tokens_def LexerToken_class_eq
        Lexer_init_def LexerToken_init_def TokenAction_init_def
        add_tokens_def set_name_def getattr_rule_def member_obj_def append_rule_def Let_def)

theorem lexer_rules_in_order_witness:
  "case fst calculator_lexer of
     Inl e \<Rightarrow> False
   | Inr lx \<Rightarrow>
       (case add_rules
               [Tuple [MatcherObj (Pattern ''{integer}''),
                       ActionObj (TokenAction \<lparr>index = 6, name = Some (Name ''Number''),
                         action_class = WithText, start_ignore_layout = False,
                         end_ignore_layout = False\<rparr>)]]
               (add_patterns [(''digit'', ''[0-9]''), (''integer'', ''({digit}(_?{digit})*)'')] lx) of
          (Inl e, lx') \<Rightarrow> False
        | (Inr u, lx') \<Rightarrow>
            rules lx' =
              [\<lparr>matcher = MatcherObj Eof,
                action = ActionObj (TokenAction \<lparr>index = 0, name = Some (Name ''Termination''),
                  action_class = WithText, start_ignore_layout = False, end_ignore_layout = False\<rparr>)\<rparr>,
               \<lparr>matcher = MatcherObj Failure,
                action = ActionObj (TokenAction \<lparr>index = 1, name = Some (Name ''LexingFailure''),
                  action_class = WithText, start_ignore_layout = False, end_ignore_layout = False\<rparr>)\<rparr>,
               \<lparr>matcher = MatcherObj (Pattern ''{integer}''),
                action = ActionObj (TokenAction \<lparr>index = 6, name = Some (Name ''Number''),
                  action_class = WithText, start_ignore_layout = False, end_ignore_layout = False\<rparr>)\<rparr>] \<and>
            patterns_list lx' =
              [PredefPattern ''digit'' ''[0-9]'', PredefPattern ''integer'' ''({digit}(_?{digit})*)''] \<and>
            emit (\<lambda>template toks pats rls l. template) lx' = ''lexer/quex_lexer_spec'')"
proof -
  let ?ps = "[(''digit'', ''[0-9]''), (''integer'', ''({digit}(_?{digit})*)'')]"
  let ?number = "\<lparr>matcher = MatcherObj (Pattern ''{integer}''),
                   action = ActionObj (TokenAction \<lparr>index = 6, name = Some (Name ''Number''),
                     action_class = WithText, start_ignore_layout = False, end_ignore_layout = False\<rparr>)\<rparr>"
  let ?rs = "[Tuple [MatcherObj (Pattern ''{integer}''),
                     ActionObj (TokenAction \<lparr>index = 6, name = Some (Name ''Number''),
                       action_class = WithText, start_ignore_layout = False,
                       end_ignore_layout = False\<rparr>)]]"
  from calculator_class obtain d where d: "class_body calculator_tokens [] 2 = (d, 7)"
    and plain: "\<forall>k \<in> set [d]. map_of k ''Termination'' = None \<and> map_of k ''LexingFailure'' = None"
    by auto
  have calc: "calculator_lexer = Lexer_init Name (\<lambda>klass. klass) [d] False 7"
    by (simp add: calculator_lexer_def LexerToken_class_eq d)
  from lexer_rules_in_order [of Name "\<lambda>klass. klass" "[d]" False 7, THEN conjunct1]
  obtain lx where init: "Lexer_init Name (\<lambda>klass. klass) [d] False 7 = (Inr lx, if False then 7 + 3 else 7)"
    and pats: "patterns_list lx = []"
    and builtin: "(\<forall>k \<in> set [d]. map_of k ''Termination'' = None \<and> map_of k ''LexingFailure'' = None) \<longrightarrow>
       rules lx =
       [\<lparr>matcher = MatcherObj Eof,
         action = ActionObj (TokenAction \<lparr>index = 0, name = Some (Name ''Termination''),
           action_class = WithText, start_ignore_layout = False, end_ignore_layout = False\<rparr>)\<rparr>,
        \<lparr>matcher = MatcherObj Failure,
         action = ActionObj (TokenAction \<lparr>index = 1, name = Some (Name ''LexingFailure''),
           action_class = WithText, start_ignore_layout = False, end_ignore_layout = False\<rparr>)\<rparr>]
       @ (if False
          then [\<lparr>matcher = MatcherObj (Literal [CHR 0x5C, CHR ''n'']),
                 action = ActionObj (TokenAction \<lparr>index = 7 + 2, name = Some (Name ''Newline''),
                   action_class = WithText, start_ignore_layout = False,
                   end_ignore_layout = False\<rparr>)\<rparr>]
          else [])"
    by blast
  from init have lx: "Lexer_init Name (\<lambda>klass. klass) [d] False 7 = (Inr lx, 7)"
    by simp
  from builtin plain have rls: "rules lx =
       [\<lparr>matcher = MatcherObj Eof,
         action = ActionObj (TokenAction \<lparr>index = 0, name = Some (Name ''Termination''),
           action_class = WithText, start_ignore_layout = False, end_ignore_layout = False\<rparr>)\<rparr>,
        \<lparr>matcher = MatcherObj Failure,
         action = ActionObj (TokenAction \<lparr>index = 1, name = Some (Name ''LexingFailure''),
           action_class = WithText, start_ignore_layout = False, end_ignore_layout = False\<rparr>)\<rparr>]"
    by simp
  define lx1 where "lx1 = add_patterns ?ps lx"
  define lx2 where "lx2 = append_rule ?number lx1"
  have run: "add_rules ?rs lx1 = (Inr (), lx2)"
    by (simp add: lx2_def)
  from lexer_rules_in_order
    [of Name "\<lambda>klass. klass" "[d]" False 7 ?rs lx1 lx2 ?ps, THEN conjunct2, THEN conjunct1] run
  have "rules lx2 = rules lx1 @ [?number]" and "patterns_list lx2 = patterns_list lx1"
    by simp_all
  moreover
  from lexer_rules_in_order
    [of Name "\<lambda>klass. klass" "[d]" False 7 ?rs lx lx2 ?ps, THEN conjunct2, THEN conjunct2]
  have "patterns_list lx1 = patterns_list lx @ map (\<lambda>(k, v). PredefPattern k v) ?ps"
    and "rules lx1 = rules lx"
    by (simp_all add: lx1_def)
  ultimately have r2: "rules lx2 = rules lx @ [?number]"
    and p2: "patterns_list lx2 =
      [PredefPattern ''digit'' ''[0-9]'', PredefPattern ''integer'' ''({digit}(_?{digit})*)'']"
    by (simp_all add: pats)
  have "case add_rules ?rs lx1 of
          (Inl e, lx') \<Rightarrow> False
        | (Inr u, lx') \<Rightarrow>
            rules lx' =
              [\<lparr>matcher = MatcherObj Eof,
                action = ActionObj (TokenAction \<lparr>index = 0, name = Some (Name ''Termination''),
                  action_class = WithText, start_ignore_layout = False, end_ignore_layout = False\<rparr>)\<rparr>,
               \<lparr>matcher = MatcherObj Failure,
                action = ActionObj (TokenAction \<lparr>index = 1, name = Some (Name ''LexingFailure''),
                  action_class = WithText, start_ignore_layout = False, end_ignore_layout = False\<rparr>)\<rparr>,
               ?number] \<and>
            patterns_list lx' =
              [PredefPattern ''digit'' ''[0-9]'', PredefPattern ''integer'' ''({digit}(_?{digit})*)''] \<and>
            emit (\<lambda>template toks pats rls l. template) lx' = ''lexer/quex_lexer_spec''"
    unfolding run by (simp add: r2 p2 rls emit_def)
  then show ?thesis
    unfolding lx1_def calc lx by simp
qed

subsection \<open>Malformed rule entries\<close>

theorem add_rules_rejects_by_assertion_witness:
  "case fst calculator_lexer of
     Inl e \<Rightarrow> False
   | Inr lx \<Rightarrow>
       add_rules [Tuple [MatcherObj (Literal ''+''), ActionObj Ignore, OtherObj ''1'']] lx
         = (Inl (AssertionError []), lx) \<and>
       add_rules [OtherEntry ''42''] lx = (Inl (AssertionError []), lx) \<and>
       add_rules [Tuple [MatcherObj (Literal ''+''), ActionObj Ignore], Tuple [MatcherObj Eof],
                  Tuple [MatcherObj (Literal ''-''), ActionObj Ignore]] lx
         = (Inl (AssertionError []),
            append_rule \<lparr>matcher = MatcherObj (Literal ''+''), action = ActionObj Ignore\<rparr> lx) \<and>
       rules (snd (add_rules [Tuple [MatcherObj (Literal ''+''), ActionObj Ignore], Tuple [MatcherObj Eof],
                              Tuple [MatcherObj (Literal ''-''), ActionObj Ignore]] lx))
         = rules lx @ [\<lparr>matcher = MatcherObj (Literal ''+''), action = ActionObj Ignore\<rparr>] \<and>
       fst (add_rules [Tuple [OtherObj ''1'', OtherObj ''2'']] lx) = Inr ()"
proof -
  from calculator_lexer_facts obtain lx where lx: "calculator_lexer = (Inr lx, 7)"
    by blast
  let ?three = "[MatcherObj (Literal ''+''), ActionObj Ignore, OtherObj ''1'']"
  let ?good = "[Tuple [MatcherObj (Literal ''+''), ActionObj Ignore]]"
  let ?bad = "Tuple [MatcherObj Eof]"
  let ?rest = "[Tuple [MatcherObj (Literal ''-''), ActionObj Ignore]]"
  note facts = add_rules_rejects_by_assertion
    [of ?good ?bad ?rest lx "[]" ?three "''42''" "OtherObj ''1''" "OtherObj ''2''"]
  have "(\<forall>e \<in> set ?good. \<not> fails_assert e) \<and> fails_assert ?bad"
    by simp
  with facts have "add_rules (?good @ ?bad # ?rest) lx =
        (Inl (AssertionError []), fold append_rule (concat (map entry_rule ?good)) lx)"
    and "rules (snd (add_rules (?good @ ?bad # ?rest) lx)) = rules lx @ concat (map entry_rule ?good)"
    by blast+
  then have stopped: "add_rules [Tuple [MatcherObj (Literal ''+''), ActionObj Ignore], Tuple [MatcherObj Eof],
                  Tuple [MatcherObj (Literal ''-''), ActionObj Ignore]] lx
         = (Inl (AssertionError []),
            append_rule \<lparr>matcher = MatcherObj (Literal ''+''), action = ActionObj Ignore\<rparr> lx)"
    and kept: "rules (snd (add_rules [Tuple [MatcherObj (Literal ''+''), ActionObj Ignore], Tuple [MatcherObj Eof],
                              Tuple [MatcherObj (Literal ''-''), ActionObj Ignore]] lx))
         = rules lx @ [\<lparr>matcher = MatcherObj (Literal ''+''), action = ActionObj Ignore\<rparr>]"
    by simp_all
  from facts have "add_rules [Tuple ?three] lx = (Inl (AssertionError []), lx)"
    and "add_rules [OtherEntry ''42''] lx = (Inl (AssertionError []), lx)"
    and "fst (add_rules [Tuple [OtherObj ''1'', OtherObj ''2'']] lx) = Inr ()"
    by simp_all
  with stopped kept show ?thesis
    by (simp add: lx)
qed

theorem malformed_rule_entry_is_not_reported:
  "case fst calculator_lexer of
     Inl e \<Rightarrow> False
   | Inr lx \<Rightarrow>
       add_rules [Tuple [MatcherObj (Literal ''+''), ActionObj Ignore, OtherObj ''1'']] lx
         = (Inl (AssertionError []), lx) \<and>
       \<not> is_diagnostic (AssertionError [])"
proof -
  from calculator_lexer_facts obtain lx where lx: "calculator_lexer = (Inr lx, 7)"
    by blast
  show ?thesis by (simp add: lx)
qed

subsection \<open>Resolving token names\<close>


lemma lower_examples:
  "capitalized (lower ''MINUS'') = Name ''Minus''"
  "capitalized (lower ''+'') = Name ''+''"
  "capitalized (lower ''foo'') = Name ''Foo''"
  "capitalized (lower ''minus'') = Name ''Minus''"
  by code_simp+




subsection \<open>Literal rules with the same text\<close>

text \<open>
  C10, as the code has it. Every rule added with a literal matcher records
  its action under the literal's exact text, and a later rule with the same
  text overwrites the entry, while the rule list keeps the earlier rule in
  front. Resolving the spelling with \<^verbatim>\<open>token_base_name\<close> then reads the
  \<^verbatim>\<open>name\<close> of the later rule's action, provided the lower-case form of the
  spelling does not itself name a declared token: when it does, that token's
  name is returned and the literal rules are not consulted. The later action
  has a name when it is a token action; \<^verbatim>\<open>Ignore\<close> has none.
\<close>

theorem later_literal_rule_overwrites:
  "literals_map (append_rule r lx) x =
     (if is_literal_rule x r then Some (action r) else literals_map lx x) \<and>
   (add_rules rs lx = (Inr (), lx') \<and>
    concat (map entry_rule rs) = before @ [r1] @ between @ [r2] @ after \<and>
    is_literal_rule x r1 \<and> is_literal_rule x r2 \<and> (\<forall>q \<in> set after. \<not> is_literal_rule x q)
    \<longrightarrow>
      rules lx' = rules lx @ before @ [r1] @ between @ [r2] @ after \<and>
      literals_map lx' x = Some (action r2) \<and>
      (from_lower (lower x) \<notin> tokens_set lx \<longrightarrow>
         token_base_name from_lower lx' (StrRef x) = getattr_name (action r2)) \<and>
      (from_lower (lower x) \<in> tokens_set lx \<longrightarrow>
         token_base_name from_lower lx' (StrRef x) = Inr (Some (from_lower (lower x))))) \<and>
   getattr_name (ActionObj (TokenAction ta)) = Inr (name ta) \<and>
   getattr_name (ActionObj Ignore) = Inl (AttributeError ''name'')"
proof -
  have step: "literals_map (append_rule r lx) x =
     (if is_literal_rule x r then Some (action r) else literals_map lx x)"
    by (rule literals_map_append_rule)
  have later: "rules lx' = rules lx @ before @ [r1] @ between @ [r2] @ after \<and>
      literals_map lx' x = Some (action r2) \<and>
      (from_lower (lower x) \<notin> tokens_set lx \<longrightarrow>
         token_base_name from_lower lx' (StrRef x) = getattr_name (action r2)) \<and>
      (from_lower (lower x) \<in> tokens_set lx \<longrightarrow>
         token_base_name from_lower lx' (StrRef x) = Inr (Some (from_lower (lower x))))"
    if run: "add_rules rs lx = (Inr (), lx')"
      and split: "concat (map entry_rule rs) = before @ [r1] @ between @ [r2] @ after"
      and r2: "is_literal_rule x r2"
      and after: "\<forall>q \<in> set after. \<not> is_literal_rule x q"
  proof -
    from run have lx': "lx' = fold append_rule (concat (map entry_rule rs)) lx"
      by (rule add_rules_success)
    then have rls: "rules lx' = rules lx @ before @ [r1] @ between @ [r2] @ after"
      by (simp only: rules_fold_append_rule split)
    have names: "tokens_set lx' = tokens_set lx"
      by (simp only: lx' tokens_set_fold_append_rule)
    have "lx' = fold append_rule after (append_rule r2 (fold append_rule (before @ [r1] @ between) lx))"
      by (simp add: lx' split)
    then have "literals_map lx' x =
        literals_map (append_rule r2 (fold append_rule (before @ [r1] @ between) lx)) x"
      using after by (simp only: literals_map_fold_no_literal)
    with r2 have lit: "literals_map lx' x = Some (action r2)"
      by (simp add: literals_map_append_rule)
    from rls lit names show ?thesis
      by (simp add: token_base_name_def Let_def)
  qed
  have "getattr_name (ActionObj (TokenAction ta)) = Inr (name ta)"
    and "getattr_name (ActionObj Ignore) = Inl (AttributeError ''name'')"
    by (simp_all add: getattr_name_def)
  with step later show ?thesis by blast
qed

theorem later_literal_rule_overwrites_witness:
  "case fst calculator_lexer of
     Inl e \<Rightarrow> False
   | Inr lx \<Rightarrow>
       (case add_rules
               [Tuple [MatcherObj (Literal ''-''),
                       ActionObj (TokenAction \<lparr>index = 3, name = Some (Name ''Minus''),
                         action_class = WithText, start_ignore_layout = False,
                         end_ignore_layout = False\<rparr>)],
                Tuple [MatcherObj (Literal ''-''),
                       ActionObj (TokenAction \<lparr>index = 5, name = Some (Name ''Div''),
                         action_class = WithText, start_ignore_layout = False,
                         end_ignore_layout = False\<rparr>)]] lx of
          (Inl e, lx') \<Rightarrow> False
        | (Inr u, lx') \<Rightarrow>
            literals_map lx' ''-'' =
              Some (ActionObj (TokenAction \<lparr>index = 5, name = Some (Name ''Div''),
                     action_class = WithText, start_ignore_layout = False,
                     end_ignore_layout = False\<rparr>)) \<and>
            map matcher (drop 2 (rules lx')) = [MatcherObj (Literal ''-''), MatcherObj (Literal ''-'')] \<and>
            map action (drop 2 (rules lx')) =
              [ActionObj (TokenAction \<lparr>index = 3, name = Some (Name ''Minus''),
                 action_class = WithText, start_ignore_layout = False, end_ignore_layout = False\<rparr>),
               ActionObj (TokenAction \<lparr>index = 5, name = Some (Name ''Div''),
                 action_class = WithText, start_ignore_layout = False, end_ignore_layout = False\<rparr>)] \<and>
            token_base_name capitalized lx' (StrRef ''-'') = Inr (Some (Name ''Div'')))"
proof -
  let ?minus = "\<lparr>matcher = MatcherObj (Literal ''-''),
                  action = ActionObj (TokenAction \<lparr>index = 3, name = Some (Name ''Minus''),
                    action_class = WithText, start_ignore_layout = False, end_ignore_layout = False\<rparr>)\<rparr>"
  let ?div = "\<lparr>matcher = MatcherObj (Literal ''-''),
                action = ActionObj (TokenAction \<lparr>index = 5, name = Some (Name ''Div''),
                  action_class = WithText, start_ignore_layout = False, end_ignore_layout = False\<rparr>)\<rparr>"
  let ?rs = "[Tuple [MatcherObj (Literal ''-''),
                     ActionObj (TokenAction \<lparr>index = 3, name = Some (Name ''Minus''),
                       action_class = WithText, start_ignore_layout = False,
                       end_ignore_layout = False\<rparr>)],
              Tuple [MatcherObj (Literal ''-''),
                     ActionObj (TokenAction \<lparr>index = 5, name = Some (Name ''Div''),
                       action_class = WithText, start_ignore_layout = False,
                       end_ignore_layout = False\<rparr>)]]"
  from calculator_lexer_facts obtain lx where lx: "calculator_lexer = (Inr lx, 7)"
    and names: "tokens_set lx = {Name ''Plus'', Name ''Minus'', Name ''Times'', Name ''Div'',
                                 Name ''Number'', Name ''Termination'', Name ''LexingFailure''}"
    and rls: "length (rules lx) = 2"
    by auto
  define lx' where "lx' = append_rule ?div (append_rule ?minus lx)"
  have run: "add_rules ?rs lx = (Inr (), lx')"
    by (simp add: lx'_def)
  have dash: "capitalized (lower ''-'') = Name ''-''"
    by code_simp
  have "concat (map entry_rule ?rs) = [] @ [?minus] @ [] @ [?div] @ []"
    and "is_literal_rule ''-'' ?minus" and "is_literal_rule ''-'' ?div"
    and "capitalized (lower ''-'') \<notin> tokens_set lx"
    by (simp_all add: is_literal_rule_def names dash)
  with run later_literal_rule_overwrites
    [of ?div lx "''-''" ?rs lx' "[]" ?minus "[]" ?div "[]" capitalized
        "\<lparr>index = 5, name = Some (Name ''Div''), action_class = WithText,
          start_ignore_layout = False, end_ignore_layout = False\<rparr>"]
  have "rules lx' = rules lx @ [?minus, ?div]"
    and "literals_map lx' ''-'' = Some (action ?div)"
    and "token_base_name capitalized lx' (StrRef ''-'') = Inr (Some (Name ''Div''))"
    by simp_all
  with rls
  have "case add_rules ?rs lx of
          (Inl e, lx') \<Rightarrow> False
        | (Inr u, lx') \<Rightarrow>
            literals_map lx' ''-'' = Some (action ?div) \<and>
            map matcher (drop 2 (rules lx')) = [MatcherObj (Literal ''-''), MatcherObj (Literal ''-'')] \<and>
            map action (drop 2 (rules lx')) = [action ?minus, action ?div] \<and>
            token_base_name capitalized lx' (StrRef ''-'') = Inr (Some (Name ''Div''))"
    unfolding run by simp
  then show ?thesis
    unfolding lx by simp
qed

theorem declared_name_shadows_literal_rule:
  "case fst calculator_lexer of
     Inl e \<Rightarrow> False
   | Inr lx \<Rightarrow>
       (case add_rules
               [Tuple [MatcherObj (Literal ''minus''),
                       ActionObj (TokenAction \<lparr>index = 5, name = Some (Name ''Div''),
                         action_class = WithText, start_ignore_layout = False,
                         end_ignore_layout = False\<rparr>)],
                Tuple [MatcherObj (Literal ''minus''),
                       ActionObj (TokenAction \<lparr>index = 4, name = Some (Name ''Times''),
                         action_class = WithText, start_ignore_layout = False,
                         end_ignore_layout = False\<rparr>)]] lx of
          (Inl e, lx') \<Rightarrow> False
        | (Inr u, lx') \<Rightarrow>
            literals_map lx' ''minus'' =
              Some (ActionObj (TokenAction \<lparr>index = 4, name = Some (Name ''Times''),
                     action_class = WithText, start_ignore_layout = False,
                     end_ignore_layout = False\<rparr>)) \<and>
            token_base_name capitalized lx' (StrRef ''minus'') = Inr (Some (Name ''Minus'')) \<and>
            Name ''Minus'' \<noteq> Name ''Times'')"
proof -
  from calculator_lexer_facts obtain lx where lx: "calculator_lexer = (Inr lx, 7)"
    and names: "tokens_set lx = {Name ''Plus'', Name ''Minus'', Name ''Times'', Name ''Div'',
                                 Name ''Number'', Name ''Termination'', Name ''LexingFailure''}"
    by blast
  show ?thesis
    by (simp add: lx names token_base_name_def append_rule_def Let_def lower_examples)
qed

subsection \<open>Token values\<close>

lemma numbered_Nil: "numbered c [] = []"
  by (simp add: numbered_def)

lemma numbered_Cons: "numbered c (x # xs) = (c, x) # numbered (Suc c) xs"
  by (simp add: numbered_def upt_conv_Cons del: upt_Suc)

lemma map_fst_numbered: "map fst (numbered c xs) = [c..<c + length xs]"
  by (simp add: numbered_def)

lemma length_numbered: "length (numbered c xs) = length xs"
  by (simp add: numbered_def)

lemma update_fresh: "k \<notin> fst ` set d \<Longrightarrow> AList.update k v d = d @ [(k, v)]"
  by (induction d) auto

lemma class_body_distinct:
  "distinct (map fst decls) \<Longrightarrow> set (map fst decls) \<inter> fst ` set d = {} \<Longrightarrow>
   class_body decls d c = (d @ map declared_member (numbered c decls), c + length decls)"
proof (induction decls arbitrary: d c)
  case Nil
  then show ?case by (simp add: numbered_Nil)
next
  case (Cons x rest)
  obtain n cls s e where x: "x = (n, cls, s, e)" by (cases x) auto
  let ?m = "(n, TokenActionMember \<lparr>index = c, name = None, action_class = cls,
       start_ignore_layout = s, end_ignore_layout = e\<rparr>)"
  have fresh: "n \<notin> fst ` set d" using Cons.prems(2) x by auto
  have "class_body (x # rest) d c = class_body rest (d @ [?m]) (Suc c)"
    by (simp add: x TokenAction_init_def update_fresh[OF fresh])
  also have "\<dots> = ((d @ [?m]) @ map declared_member (numbered (Suc c) rest), Suc c + length rest)"
    using Cons.prems x by (intro Cons.IH) auto
  finally show ?case by (simp add: x numbered_Cons declared_member_def)
qed

lemma fst_declared_member: "fst (declared_member (i, x)) = fst x"
  by (cases x) (simp add: declared_member_def)

lemma map_fst_declared: "map fst (map declared_member (numbered c decls)) = map fst decls"
  by (induction decls arbitrary: c) (simp_all add: numbered_Nil numbered_Cons fst_declared_member)

lemma member_actions_append:
  "member_actions (xs @ ys) = member_actions xs @ member_actions ys"
  by (induction xs rule: member_actions.induct) simp_all

lemma member_actions_declared:
  "member_actions (map (set_name fc) (map declared_member xs)) = map (declared_action fc) xs"
  by (induction xs) (auto simp: declared_member_def declared_action_def set_name_def)

lemma token_value_declared: "token_value (declared_action fc x) = fst x"
  by (cases x) (simp add: declared_action_def token_value_def)

lemma values_declared:
  "map token_value (map (declared_action fc) (numbered c decls)) = [c..<c + length decls]"
proof -
  have "map token_value (map (declared_action fc) (numbered c decls)) = map fst (numbered c decls)"
    by (simp add: token_value_declared)
  then show ?thesis by (simp add: map_fst_numbered)
qed

lemma mset_member_actions:
  "mset (member_actions xs) = (\<Sum>x \<in># mset xs. mset (member_actions [x]))"
  by (induction xs rule: member_actions.induct) simp_all

lemma mset_add_tokens:
  assumes "\<forall>d. mset (items d) = mset d"
  shows "mset (add_tokens fc items d) = mset (member_actions (map (set_name fc) d))"
proof -
  from assms have "mset (map (set_name fc) (items d)) = mset (map (set_name fc) d)"
    by (simp only: mset_map)
  then show ?thesis
    unfolding add_tokens_def
    by (subst (1 2) mset_member_actions) (simp only:)
qed

lemma LexerToken_class_declared:
  "fst LexerToken_class = map declared_member (numbered 0 builtin_tokens)"
  by (simp add: LexerToken_class_eq builtin_tokens_def numbered_Cons numbered_Nil declared_member_def)

lemma token_fields_plain:
  "token_fields (fst (LexerToken_init fc items [d] False c2)) =
     add_tokens fc items d @ add_tokens fc items (fst LexerToken_class)"
  by (simp add: LexerToken_init_def Let_def)

lemma token_fields_track:
  "token_fields (fst (LexerToken_init fc items [d] True c2)) =
     add_tokens fc items (fst (class_body layout_tokens d c2))
     @ add_tokens fc items (fst LexerToken_class)"
  by (simp add: LexerToken_init_def Let_def TokenAction_init_def setattr_class_def layout_tokens_def)

lemma mset_token_fields:
  assumes items: "\<forall>d. mset (items d) = mset d"
    and dist: "distinct (map fst decls)"
    and layout: "track \<longrightarrow> set (map fst decls) \<inter> {''Indent'', ''Dedent'', ''Newline''} = {}"
  shows "mset (token_fields (fst (LexerToken_init fc items [fst (class_body decls [] c)] track c2))) =
     mset (map (declared_action fc)
       (numbered 0 builtin_tokens @ numbered c decls
        @ (if track then numbered c2 layout_tokens else [])))"
proof -
  let ?d = "map declared_member (numbered c decls)"
  have d: "fst (class_body decls [] c) = ?d"
    using class_body_distinct [OF dist, of "[]" c] by simp
  have base: "mset (add_tokens fc items (fst LexerToken_class)) =
      mset (map (declared_action fc) (numbered 0 builtin_tokens))"
    by (simp only: mset_add_tokens [OF items] LexerToken_class_declared member_actions_declared)
  show ?thesis
  proof (cases track)
    case False
    have "mset (add_tokens fc items ?d) = mset (map (declared_action fc) (numbered c decls))"
      by (simp only: mset_add_tokens [OF items] member_actions_declared)
    with base False show ?thesis
      by (simp add: d token_fields_plain)
  next
    case True
    have names: "fst ` set ?d = set (map fst decls)"
      using map_fst_declared [of c decls] by (metis list.set_map)
    from layout True have "set (map fst layout_tokens) \<inter> fst ` set ?d = {}"
      unfolding names by (auto simp: layout_tokens_def)
    moreover have "distinct (map fst layout_tokens)"
      by (simp add: layout_tokens_def)
    ultimately have "fst (class_body layout_tokens ?d c2) = ?d @ map declared_member (numbered c2 layout_tokens)"
      by (simp add: class_body_distinct)
    then have "mset (add_tokens fc items (fst (class_body layout_tokens ?d c2))) =
        mset (map (declared_action fc) (numbered c decls))
        + mset (map (declared_action fc) (numbered c2 layout_tokens))"
      by (simp only: mset_add_tokens [OF items] map_append member_actions_append member_actions_declared
            mset_append)
    with base True show ?thesis
      by (simp add: d token_fields_track)
  qed
qed

lemma values_catalog:
  "map token_value (map (declared_action fc)
       (numbered 0 builtin_tokens @ numbered c decls
        @ (if track then numbered c2 layout_tokens else []))) =
   [0, 1] @ [c..<c + length decls] @ (if track then [c2, c2 + 1, c2 + 2] else [])"
proof -
  have "map token_value (map (declared_action fc) (numbered 0 builtin_tokens)) = [0, 1]"
    by (simp add: builtin_tokens_def numbered_Cons numbered_Nil token_value_declared)
  moreover have "map token_value (map (declared_action fc) (numbered c2 layout_tokens)) = [c2, c2 + 1, c2 + 2]"
    by (simp add: layout_tokens_def numbered_Cons numbered_Nil token_value_declared)
  ultimately show ?thesis
    using values_declared [of fc c decls] by simp
qed

lemma catalog_sorted_distinct:
  assumes "2 \<le> c" "c + length decls \<le> c2"
  shows "sorted ([0, 1] @ [c..<c + length decls] @ (if track then [c2, c2 + 1, c2 + 2] else []))"
    and "distinct ([0, 1] @ [c..<c + length decls] @ (if track then [c2, c2 + 1, c2 + 2] else []))"
  using assms by (auto simp: sorted_append)

lemma sorted_tokens_catalog:
  assumes items: "\<forall>d. mset (items d) = mset d"
    and dist: "distinct (map fst decls)"
    and c: "2 \<le> c" and c2: "c + length decls \<le> c2"
    and layout: "track \<longrightarrow> set (map fst decls) \<inter> {''Indent'', ''Dedent'', ''Newline''} = {}"
    and toks: "tokens lx = fst (LexerToken_init fc items [fst (class_body decls [] c)] track c2)"
  shows "sorted_tokens lx =
     map (declared_action fc)
       (numbered 0 builtin_tokens @ numbered c decls
        @ (if track then numbered c2 layout_tokens else []))"
proof -
  let ?L = "map (declared_action fc)
       (numbered 0 builtin_tokens @ numbered c decls
        @ (if track then numbered c2 layout_tokens else []))"
  let ?xs = "token_fields (tokens lx)"
  have m: "mset ?xs = mset ?L"
    unfolding toks by (rule mset_token_fields [OF items dist layout])
  have s: "sorted (map token_value ?L)"
    unfolding values_catalog by (rule catalog_sorted_distinct [OF c c2])
  have "distinct (map token_value ?L)"
    unfolding values_catalog by (rule catalog_sorted_distinct [OF c c2])
  then have "inj_on token_value (set ?L)"
    by (simp only: distinct_map)
  moreover from m have "set ?xs = set ?L"
    by (rule mset_eq_setD)
  ultimately have i: "inj_on token_value (set ?xs)"
    by simp
  from m i s show ?thesis
    unfolding sorted_tokens_def by (rule sort_key_inj_key_eq)
qed

lemma upt_from_eq: "[c..<c + n] = [d..<d + n] \<longleftrightarrow> n = 0 \<or> c = d"
  by (cases n) (auto simp: upt_conv_Cons simp del: upt_Suc)

lemma positions_split:
  "[0..<2 + n + k] = [0, 1] @ [2..<2 + n] @ [2 + n..<2 + n + k]"
proof -
  have "[0..<2 + n + k] = [0..<2 + n] @ [2 + n..<2 + n + k]"
    by (rule upt_add_eq_append) simp
  moreover have "[0..<2 + n] = [0..<2] @ [2..<2 + n]"
    by (rule upt_add_eq_append) simp
  moreover have "[0..<2] = [0, 1::nat]"
    by (simp add: numeral_2_eq_2)
  ultimately show ?thesis by simp
qed

lemma values_are_positions:
  "[0, 1] @ [c..<c + n] @ (if track then [c2, c2 + 1, c2 + 2] else [])
     = [0..<2 + n + (if track then 3 else 0)]
   \<longleftrightarrow> (n = 0 \<or> c = 2) \<and> (track \<longrightarrow> c2 = 2 + n)"
proof -
  let ?B = "if track then [c2, c2 + 1, c2 + 2] else []"
  let ?B' = "[2 + n..<2 + n + (if track then 3 else 0)]"
  have three: "[m..<m + 3] = [m, m + 1, m + 2]" for m :: nat
    by (simp add: numeral_3_eq_3 upt_conv_Cons del: upt_Suc)
  have A: "[c..<c + n] = [2..<2 + n] \<longleftrightarrow> n = 0 \<or> c = 2"
    by (rule upt_from_eq)
  have B: "?B = ?B' \<longleftrightarrow> (track \<longrightarrow> c2 = 2 + n)"
    using three [of "2 + n"] by (cases track) auto
  have "[0, 1] @ [c..<c + n] @ ?B = [0, 1] @ [2..<2 + n] @ ?B'
      \<longleftrightarrow> [c..<c + n] = [2..<2 + n] \<and> ?B = ?B'"
    by simp
  with A B show ?thesis
    unfolding positions_split by blast
qed

text \<open>
  C2, as the code has it. The value of a token action is the reading of the
  process-wide counter \<^verbatim>\<open>TokenAction._counter\<close> at its instantiation. Take a
  token class that derives from \<^verbatim>\<open>LexerToken\<close> with the declarations
  \<open>decls\<close>, of distinct field names, made when the counter reads \<open>c\<close> (at
  least 2, for \<^verbatim>\<open>LexerToken\<close> itself is declared by then), and a lexer built
  from it when the counter reads \<open>c2\<close>; with indentation tracking, no field
  is named \<^verbatim>\<open>Indent\<close>, \<^verbatim>\<open>Dedent\<close> or \<^verbatim>\<open>Newline\<close>. Then, in whatever
  order the class dictionaries are walked, the lexer is built and its tokens
  sorted by value are: \<^verbatim>\<open>Termination\<close> with value 0, \<^verbatim>\<open>LexingFailure\<close>
  with value 1, the declared tokens in declaration order with the values
  \<open>c\<close>, \<open>c + 1\<close>, and so on, and with indentation tracking \<^verbatim>\<open>Indent\<close>,
  \<^verbatim>\<open>Dedent\<close> and \<^verbatim>\<open>Newline\<close> with the values \<open>c2\<close>, \<open>c2 + 1\<close> and
  \<open>c2 + 2\<close>. Every value is the position of its token in this order if and
  only if no token action outside of the catalog was instantiated before one
  of the catalog: the class declares nothing or \<open>c\<close> is 2, and with
  indentation tracking \<open>c2\<close> is 2 plus the number of declarations.
\<close>

theorem token_values_follow_instantiation_order:
  assumes items: "\<forall>d. mset (items d) = mset d"
    and dist: "distinct (map fst decls)"
    and c: "2 \<le> c" and c2: "c + length decls \<le> c2"
    and layout: "track \<longrightarrow> set (map fst decls) \<inter> {''Indent'', ''Dedent'', ''Newline''} = {}"
  shows "\<exists>lx. Lexer_init fc items [fst (class_body decls [] c)] track c2
               = (Inr lx, if track then c2 + 3 else c2) \<and>
           sorted_tokens lx =
             map (declared_action fc)
               (numbered 0 builtin_tokens @ numbered c decls
                @ (if track then numbered c2 layout_tokens else [])) \<and>
           map token_value (sorted_tokens lx) =
             [0, 1] @ [c..<c + length decls] @ (if track then [c2, c2 + 1, c2 + 2] else []) \<and>
           (map token_value (sorted_tokens lx) = [0..<length (sorted_tokens lx)]
              \<longleftrightarrow> (decls = [] \<or> c = 2) \<and> (track \<longrightarrow> c2 = 2 + length decls))"
proof -
  let ?cls = "[fst (class_body decls [] c)]"
  let ?toks = "fst (LexerToken_init fc items ?cls track c2)"
  let ?nl = "TokenActionMember \<lparr>index = c2 + 2, name = Some (fc ''Newline''),
               action_class = WithText, start_ignore_layout = False, end_ignore_layout = False\<rparr>"
  let ?L = "map (declared_action fc)
               (numbered 0 builtin_tokens @ numbered c decls
                @ (if track then numbered c2 layout_tokens else []))"
  obtain t where t: "getattr_tokens (mro ?toks) ''Termination'' = Some t"
    by (cases "getattr_tokens ?cls ''Termination''")
       (simp_all add: getattr_builtin LexerToken_class_eq)
  obtain f where f: "getattr_tokens (mro ?toks) ''LexingFailure'' = Some f"
    by (cases "getattr_tokens ?cls ''LexingFailure''")
       (simp_all add: getattr_builtin LexerToken_class_eq)
  have nl: "track \<longrightarrow> getattr_tokens (mro ?toks) ''Newline'' = Some ?nl"
    using getattr_Newline by auto
  from Lexer_init_rules [OF t f nl]
  obtain lx where lx: "Lexer_init fc items ?cls track c2 = (Inr lx, if track then c2 + 3 else c2)"
    and toks: "tokens lx = ?toks"
    by blast
  have sorted: "sorted_tokens lx = ?L"
    using items dist c c2 layout toks by (rule sorted_tokens_catalog)
  have vals: "map token_value (sorted_tokens lx) =
      [0, 1] @ [c..<c + length decls] @ (if track then [c2, c2 + 1, c2 + 2] else [])"
    unfolding sorted by (rule values_catalog)
  have len: "length (sorted_tokens lx) = 2 + length decls + (if track then 3 else 0)"
    unfolding sorted
    by (simp add: length_numbered builtin_tokens_def layout_tokens_def)
  have "map token_value (sorted_tokens lx) = [0..<length (sorted_tokens lx)]
      \<longleftrightarrow> (decls = [] \<or> c = 2) \<and> (track \<longrightarrow> c2 = 2 + length decls)"
    unfolding vals len values_are_positions by simp
  with lx sorted vals show ?thesis
    by blast
qed

lemma calculator_lexer_eq:
  "calculator_lexer = Lexer_init Name (\<lambda>klass. klass) [fst (class_body calculator_tokens [] 2)] False 7"
  by (simp add: calculator_lexer_def LexerToken_class_eq case_prod_unfold)
     (simp add: calculator_tokens_def TokenAction_init_def)

lemma calculator_catalog:
  "map token_value
     (map (declared_action Name)
        (numbered 0 builtin_tokens @ numbered 2 calculator_tokens @ numbered 7 layout_tokens)) =
     [0, 1, 2, 3, 4, 5, 6, 7, 8, 9]"
  "map name
     (map (declared_action Name) (numbered 0 builtin_tokens @ numbered 2 calculator_tokens)) =
     map (\<lambda>n. Some (Name n))
       [''Termination'', ''LexingFailure'', ''Plus'', ''Minus'', ''Times'', ''Div'', ''Number'']"
  by (simp_all add: builtin_tokens_def calculator_tokens_def layout_tokens_def
        numbered_def declared_action_def token_value_def upt_conv_Cons del: upt_Suc)

theorem token_values_follow_instantiation_order_witness:
  "(case fst calculator_lexer of
      Inl e \<Rightarrow> False
    | Inr lx \<Rightarrow>
        map token_value (sorted_tokens lx) = [0, 1, 2, 3, 4, 5, 6] \<and>
        map name (sorted_tokens lx) =
          map (\<lambda>n. Some (Name n))
            [''Termination'', ''LexingFailure'', ''Plus'', ''Minus'', ''Times'', ''Div'', ''Number'']) \<and>
   (case fst (Lexer_init Name rev [fst (class_body calculator_tokens [] 2)] True 7) of
      Inl e \<Rightarrow> False
    | Inr lx \<Rightarrow> map token_value (sorted_tokens lx) = [0, 1, 2, 3, 4, 5, 6, 7, 8, 9])"
proof -
  have dist: "distinct (map fst calculator_tokens)"
    by (simp add: calculator_tokens_def)
  have len: "2 + length calculator_tokens \<le> 7"
    by (simp add: calculator_tokens_def)
  have layout: "True \<longrightarrow> set (map fst calculator_tokens) \<inter> {''Indent'', ''Dedent'', ''Newline''} = {}"
    by (simp add: calculator_tokens_def)
  have "\<forall>d :: class_dict. mset ((\<lambda>klass. klass) d) = mset d"
    by simp
  from token_values_follow_instantiation_order [OF this dist order_refl len, of False Name]
  obtain lx where lx: "Lexer_init Name (\<lambda>klass. klass) [fst (class_body calculator_tokens [] 2)] False 7
        = (Inr lx, 7)"
    and sorted: "sorted_tokens lx =
        map (declared_action Name) (numbered 0 builtin_tokens @ numbered 2 calculator_tokens)"
    by auto
  have vals: "map token_value (sorted_tokens lx) = [0, 1, 2, 3, 4, 5, 6]"
    unfolding sorted
    by (simp add: builtin_tokens_def calculator_tokens_def
        numbered_def declared_action_def token_value_def upt_conv_Cons del: upt_Suc)
  have names: "map name (sorted_tokens lx) =
          map (\<lambda>n. Some (Name n))
            [''Termination'', ''LexingFailure'', ''Plus'', ''Minus'', ''Times'', ''Div'', ''Number'']"
    unfolding sorted by (rule calculator_catalog)
  have first: "case fst calculator_lexer of
      Inl e \<Rightarrow> False
    | Inr lx \<Rightarrow>
        map token_value (sorted_tokens lx) = [0, 1, 2, 3, 4, 5, 6] \<and>
        map name (sorted_tokens lx) =
          map (\<lambda>n. Some (Name n))
            [''Termination'', ''LexingFailure'', ''Plus'', ''Minus'', ''Times'', ''Div'', ''Number'']"
    unfolding calculator_lexer_eq lx using vals names by simp
  have "\<forall>d :: class_dict. mset (rev d) = mset d"
    by simp
  from token_values_follow_instantiation_order [OF this dist order_refl len layout, of Name]
  obtain lx' where lx': "Lexer_init Name rev [fst (class_body calculator_tokens [] 2)] True 7
        = (Inr lx', 10)"
    and sorted': "sorted_tokens lx' =
        map (declared_action Name)
          (numbered 0 builtin_tokens @ numbered 2 calculator_tokens @ numbered 7 layout_tokens)"
    by auto
  have "map token_value (sorted_tokens lx') = [0, 1, 2, 3, 4, 5, 6, 7, 8, 9]"
    unfolding sorted' by (rule calculator_catalog)
  then have second: "case fst (Lexer_init Name rev [fst (class_body calculator_tokens [] 2)] True 7) of
      Inl e \<Rightarrow> False
    | Inr lx \<Rightarrow> map token_value (sorted_tokens lx) = [0, 1, 2, 3, 4, 5, 6, 7, 8, 9]"
    unfolding lx' by simp
  from first second show ?thesis ..
qed

theorem second_token_class_values_are_not_positions:
  "case class_body calculator_tokens [] (snd LexerToken_class) of
     (d1, c1) \<Rightarrow>
       (case class_body [(''Identifier'', WithSymbol, False, False)] [] c1 of
          (d2, c2) \<Rightarrow>
            (case fst (Lexer_init Name (\<lambda>klass. klass) [d2] False c2) of
               Inl e \<Rightarrow> False
             | Inr lx \<Rightarrow>
                 map name (sorted_tokens lx) =
                   [Some (Name ''Termination''), Some (Name ''LexingFailure''),
                    Some (Name ''Identifier'')] \<and>
                 map token_value (sorted_tokens lx) = [0, 1, 7] \<and>
                 map token_value (sorted_tokens lx) \<noteq> [0..<length (sorted_tokens lx)]))"
  by (simp add: calculator_tokens_def LexerToken_class_eq
        Lexer_init_def LexerToken_init_def TokenAction_init_def
        add_tokens_def set_name_def getattr_rule_def member_obj_def append_rule_def Let_def
        sorted_tokens_def token_value_def)

end
